theory Spec2Isabelle
  imports Complex_Main "HOL-Library.Log_Nat" "HOL-Library.Multiset" "HOL-Library.Product_Lexorder"
begin

section \<open>Sakkara Stats: the data model of \<open>app.py\<close>\<close>

text \<open>
  The two tables of \<open>app.py\<close> are the classes \<open>User\<close> and \<open>Reading\<close>. A row is a record;
  the primary key \<open>id\<close> is called \<open>uid\<close> (users) and \<open>rid\<close> (readings), since \<open>id\<close> is the
  identity function of HOL. A calendar date is the triple (year, month, day) under the
  lexicographic order, which is the order of Python's \<open>datetime.date\<close>; \<open>created_at\<close> is a
  point of the server clock, an integer number of ticks.
\<close>

type_synonym date = "nat \<times> nat \<times> nat"
type_synonym datetime = int

record user =
  uid :: int
  email :: string
  name :: "string option"
  password_hash :: string
  role :: string
  is_active :: bool
  before_food_min :: int
  before_food_max :: int
  after_food_min :: int
  after_food_max :: int

record reading =
  rid :: int
  user_id :: int
  date :: date
  time_of_day :: string
  meal_relation :: string
  sugar_value :: int
  food_eaten :: "string option"
  created_at :: datetime

text \<open>The database: both tables, each a list of rows in storage order.\<close>

record store =
  users :: "user list"
  readings :: "reading list"

section \<open>Python numbers\<close>

text \<open>
  \<open>sum(...) / len(...)\<close> divides two Python ints with \<open>/\<close>: the result is the IEEE 754
  double nearest to the exact quotient (ties to even), \<open>ZeroDivisionError\<close> when the divisor
  is 0 and \<open>OverflowError\<close> when the quotient is beyond the largest double.
  \<open>round(x, 1)\<close> on a double is the double nearest to the decimal with one fractional digit
  nearest to \<open>x\<close> (ties to even, decided on the exact value of \<open>x\<close>); on the int \<open>0\<close> it
  is \<open>0\<close>. A double is modelled by the rational number it denotes, so \<open>0.0\<close>, \<open>-0.0\<close> and the
  int \<open>0\<close> are one value here.
\<close>

datatype py_error =
    ZeroDivisionError | OverflowError | ValueError | BadRequestKeyError | AttributeError

definition bindE :: "py_error + 'a \<Rightarrow> ('a \<Rightarrow> py_error + 'b) \<Rightarrow> py_error + 'b" where
  "bindE m f = (case m of Inl e \<Rightarrow> Inl e | Inr x \<Rightarrow> f x)"

definition round_half_even :: "rat \<Rightarrow> int" where
  "round_half_even q =
     (let f = \<lfloor>q\<rfloor>; d = q - of_int f
      in if d < 1 / 2 then f
         else if 1 / 2 < d then f + 1
         else if even f then f else f + 1)"

definition pow2 :: "int \<Rightarrow> rat" where
  "pow2 e = (if 0 \<le> e then 2 ^ nat e else 1 / 2 ^ nat (- e))"

text \<open>
  The exponent of the unit in the last place of the double nearest to \<open>q \<noteq> 0\<close>: 52 below
  the binary exponent of \<open>q\<close>, and never below that of the subnormal numbers.
\<close>

definition ulp_exp :: "rat \<Rightarrow> int" where
  "ulp_exp q =
     (let (a, b) = quotient_of \<bar>q\<bar>;
          k = bitlen a - bitlen b;
          e = (if pow2 k \<le> \<bar>q\<bar> then k else k - 1)
      in max (e - 52) (- 1074))"

definition nearest_double :: "rat \<Rightarrow> rat" where
  "nearest_double q =
     (if q = 0 then 0
      else let u = pow2 (ulp_exp q) in of_int (round_half_even (q / u)) * u)"

definition dbl_max :: rat where
  "dbl_max = (2 ^ 53 - 1) * 2 ^ 971"

definition to_double :: "rat \<Rightarrow> py_error + rat" where
  "to_double q =
     (let r = nearest_double q in if dbl_max < \<bar>r\<bar> then Inl OverflowError else Inr r)"

definition py_truediv :: "int \<Rightarrow> int \<Rightarrow> py_error + rat" where
  "py_truediv a b =
     (if b = 0 then Inl ZeroDivisionError else to_double (of_int a / of_int b))"

definition py_round1 :: "rat \<Rightarrow> py_error + rat" where
  "py_round1 x = to_double (of_int (round_half_even (x * 10)) / 10)"

section \<open>Library functions and the request\<close>

text \<open>
  What \<open>app.py\<close> imports and calls but does not define is a field of the environment:
  werkzeug's two password functions (\<open>generate_password_hash\<close> draws a random salt, so
  the field is the function of this call), the builtin \<open>int\<close> on a string and
  \<open>datetime.strptime(s, '%Y-%m-%d').date()\<close> (\<open>None\<close> where Python raises \<open>ValueError\<close>),
  \<open>str.strip\<close>, \<open>date.strftime('%Y-%m-%d')\<close> and the clock \<open>datetime.utcnow\<close>.
\<close>

record env =
  generate_password_hash :: "string \<Rightarrow> string"
  check_password_hash :: "string \<Rightarrow> string \<Rightarrow> bool"
  py_int :: "string \<Rightarrow> int option"
  strptime_date :: "string \<Rightarrow> date option"
  strftime_date :: "date \<Rightarrow> string"
  py_strip :: "string \<Rightarrow> string"
  utcnow :: datetime

text \<open>
  \<open>request.form\<close> is a multi-dict: \<open>form[k]\<close> is the first value stored under \<open>k\<close> and
  raises \<open>BadRequestKeyError\<close> (answered with status 400 when nothing catches it) if
  there is none; \<open>form.get(k, d)\<close> returns \<open>d\<close> instead.
\<close>

record request =
  req_method :: string
  form :: "(string \<times> string) list"

definition form_item :: "request \<Rightarrow> string \<Rightarrow> py_error + string" where
  "form_item req k = (case map_of (form req) k of None \<Rightarrow> Inl BadRequestKeyError | Some v \<Rightarrow> Inr v)"

definition form_get :: "request \<Rightarrow> string \<Rightarrow> string \<Rightarrow> string" where
  "form_get req k d = (case map_of (form req) k of None \<Rightarrow> d | Some v \<Rightarrow> v)"

definition int_of_form :: "env \<Rightarrow> string \<Rightarrow> py_error + int" where
  "int_of_form E s = (case py_int E s of None \<Rightarrow> Inl ValueError | Some n \<Rightarrow> Inr n)"

definition date_of_form :: "env \<Rightarrow> string \<Rightarrow> py_error + date" where
  "date_of_form E s = (case strptime_date E s of None \<Rightarrow> Inl ValueError | Some d \<Rightarrow> Inr d)"

section \<open>Responses\<close>

record stats =
  total_readings :: nat
  avg_sugar :: rat
  min_sugar :: int
  max_sugar :: int
  before_avg :: rat
  after_avg :: rat

text \<open>The stats dictionary of \<open>admin_dashboard\<close>; it has no minimum and no maximum.\<close>

record admin_stats =
  adm_total_users :: nat
  adm_total_readings :: nat
  adm_active_users :: nat
  adm_avg_sugar :: rat
  adm_before_avg :: rat
  adm_after_avg :: rat

text \<open>A data point of \<open>chart_data\<close>: the keys \<open>x\<close>, \<open>y\<close>, \<open>food\<close>, \<open>time\<close>, \<open>user_email\<close>.\<close>

record data_point =
  dp_x :: string
  dp_y :: int
  dp_food :: "string option"
  dp_time :: string
  dp_user_email :: "string option"

record chart =
  before_food :: "data_point list"
  after_food :: "data_point list"
  before_food_range :: "int \<times> int"
  after_food_range :: "int \<times> int"

text \<open>
  A flashed message is its text and its category; the text of the handler of
  \<open>update_profile\<close> ends in \<open>str(e)\<close> of the exception caught.
\<close>

datatype message = Msg string | Msg_exc string py_error

datatype view =
    Redirect string
  | Render_login
  | Render_signup
  | Render_dashboard "reading list" stats
  | Render_history "reading list"
  | Render_admin_dashboard admin_stats
  | Render_manage_readings "reading list"
  | Json_chart chart
  | Abort nat
  | Raise py_error

text \<open>
  What a request leaves behind: the committed database, the messages flashed, the user
  id \<open>login_user\<close> bound the session to (if it was called), and the response.
\<close>

record outcome =
  db :: store
  flashes :: "(message \<times> string) list"
  logged_in :: "int option"
  response :: view

definition reply :: "store \<Rightarrow> (message \<times> string) list \<Rightarrow> view \<Rightarrow> outcome" where
  "reply st fl v = \<lparr>db = st, flashes = fl, logged_in = None, response = v\<rparr>"

text \<open>An exception no handler catches: status 400 for a missing form key, 500 otherwise.\<close>

definition uncaught :: "store \<Rightarrow> py_error \<Rightarrow> outcome" where
  "uncaught st e = reply st [] (if e = BadRequestKeyError then Abort 400 else Raise e)"

section \<open>Queries\<close>

text \<open>
  \<open>order_by\<close> is modelled by a stable sort of the rows in storage order; SQL leaves the
  order of rows with equal keys open, and no theorem below depends on it. The id of a
  new row is one above the largest id of the table (1 for an empty table). The store is
  the local SQLite file: it does not enforce the length of a string column, so lengths
  are not modelled.

  An integer is stored in a signed 64-bit column. When a statement is given an integer
  outside that range, the driver raises \<open>OverflowError\<close> before anything is read or
  written. This happens to integers that come from the request: the sugar value of
  \<open>add_reading\<close>, the four ranges of \<open>update_profile\<close>, and the id in the URL of
  \<open>delete_reading\<close> and \<open>toggle_user\<close>. The ids the tables hold are within the range, so
  a lookup by id that finds a row was given an id within the range; the handlers test the
  range where the lookup finds nothing.
\<close>

definition sqlite_int :: "int \<Rightarrow> bool" where
  "sqlite_int n \<longleftrightarrow> - 9223372036854775808 \<le> n \<and> n \<le> 9223372036854775807"

definition order_key :: "reading \<Rightarrow> date \<times> datetime" where
  "order_key r = (date r, created_at r)"

definition order_by_desc :: "('a \<Rightarrow> 'k::linorder) \<Rightarrow> 'a list \<Rightarrow> 'a list" where
  "order_by_desc k xs = rev (sort_key k xs)"

definition order_by_asc :: "('a \<Rightarrow> 'k::linorder) \<Rightarrow> 'a list \<Rightarrow> 'a list" where
  "order_by_asc k xs = sort_key k xs"

definition filter_by_user_id :: "int \<Rightarrow> reading list \<Rightarrow> reading list" where
  "filter_by_user_id i rs = filter (\<lambda>r. user_id r = i) rs"

definition filter_by_email :: "string \<Rightarrow> user list \<Rightarrow> user option" where
  "filter_by_email e us = find (\<lambda>u. email u = e) us"

definition get_user :: "store \<Rightarrow> int \<Rightarrow> user option" where
  "get_user st i = find (\<lambda>u. uid u = i) (users st)"


text \<open>\<open>Reading.query.join(User)\<close>: the inner join on \<open>reading.user_id = user.id\<close>.\<close>

definition join_user :: "store \<Rightarrow> reading list" where
  "join_user st = [r. r \<leftarrow> readings st, u \<leftarrow> users st, uid u = user_id r]"

text \<open>The relationship \<open>reading.user\<close>.\<close>

definition reading_user :: "store \<Rightarrow> reading \<Rightarrow> user option" where
  "reading_user st r = get_user st (user_id r)"

definition next_id :: "int list \<Rightarrow> int" where
  "next_id ids = (if ids = [] then 1 else Max (set ids) + 1)"

text \<open>
  \<open>db.session.commit()\<close> after attributes of a loaded user were assigned: the row with
  that id is rewritten. Without a commit the assignments are dropped with the session
  when the request ends.
\<close>

definition commit_user :: "store \<Rightarrow> user \<Rightarrow> store" where
  "commit_user st u' = st\<lparr>users := map (\<lambda>u. if uid u = uid u' then u' else u) (users st)\<rparr>"

section \<open>The request handlers\<close>

text \<open>
  Every handler takes the database and, behind \<open>login_required\<close>, the row \<open>cu\<close> of the
  logged-in user (\<open>current_user\<close>), and returns the outcome of the request.
\<close>

definition login :: "env \<Rightarrow> store \<Rightarrow> request \<Rightarrow> outcome" where
  "login E st req =
     (if req_method req = ''POST'' then
        (case form_item req ''email'' of
           Inl e \<Rightarrow> uncaught st e
         | Inr em \<Rightarrow>
        (case form_item req ''password'' of
           Inl e \<Rightarrow> uncaught st e
         | Inr pw \<Rightarrow>
        (case filter_by_email em (users st) of
           None \<Rightarrow> reply st [(Msg ''Invalid email or password.'', ''error'')] Render_login
         | Some u \<Rightarrow>
             if check_password_hash E (password_hash u) pw then
               if is_active u then
                 (reply st []
                    (Redirect (if role u = ''admin'' then ''admin_dashboard'' else ''dashboard'')))
                 \<lparr>logged_in := Some (uid u)\<rparr>
               else reply st [(Msg ''Your account is deactivated. Please contact admin.'', ''error'')]
                      Render_login
             else reply st [(Msg ''Invalid email or password.'', ''error'')] Render_login)))
      else reply st [] Render_login)"

text \<open>\<open>User(email=..., password_hash=...)\<close>: the other columns take their defaults.\<close>

definition new_user :: "env \<Rightarrow> store \<Rightarrow> string \<Rightarrow> string \<Rightarrow> user" where
  "new_user E st em pw =
     \<lparr>uid = next_id (map uid (users st)), email = em, name = None,
      password_hash = generate_password_hash E pw, role = ''user'', is_active = True,
      before_food_min = 80, before_food_max = 130, after_food_min = 90, after_food_max = 180\<rparr>"

definition signup :: "env \<Rightarrow> store \<Rightarrow> request \<Rightarrow> outcome" where
  "signup E st req =
     (if req_method req = ''POST'' then
        (case form_item req ''email'' of
           Inl e \<Rightarrow> uncaught st e
         | Inr em \<Rightarrow>
        (case form_item req ''password'' of
           Inl e \<Rightarrow> uncaught st e
         | Inr pw \<Rightarrow>
        (case filter_by_email em (users st) of
           Some u \<Rightarrow> reply st [(Msg ''Email already exists.'', ''error'')] Render_signup
         | None \<Rightarrow>
             reply (st\<lparr>users := users st @ [new_user E st em pw]\<rparr>)
               [(Msg ''Account created successfully! Please login.'', ''success'')]
               (Redirect ''login''))))
      else reply st [] Render_signup)"

text \<open>The expression \<open>sum(r.sugar_value for r in rs) / len(rs) if rs else 0\<close>.\<close>

definition mean_if_any :: "reading list \<Rightarrow> py_error + rat" where
  "mean_if_any rs =
     (if rs \<noteq> [] then py_truediv (sum_list (map sugar_value rs)) (int (length rs)) else Inr 0)"

definition dashboard_stats :: "reading list \<Rightarrow> py_error + stats" where
  "dashboard_stats all_readings =
     bindE
       (if all_readings \<noteq> [] then
          bindE (py_truediv (sum_list (map sugar_value all_readings)) (int (length all_readings)))
            (\<lambda>avg.
          bindE (mean_if_any (filter (\<lambda>r. meal_relation r = ''Before Food'') all_readings))
            (\<lambda>b_avg.
          bindE (mean_if_any (filter (\<lambda>r. meal_relation r = ''After Food'') all_readings))
            (\<lambda>a_avg.
          Inr (length all_readings, avg, Min (set (map sugar_value all_readings)),
               Max (set (map sugar_value all_readings)), b_avg, a_avg))))
        else Inr (0, 0, 0, 0, 0, 0))
       (\<lambda>(total, avg, mn, mx, b_avg, a_avg).
          bindE (py_round1 avg) (\<lambda>avg1.
          bindE (py_round1 b_avg) (\<lambda>b_avg1.
          bindE (py_round1 a_avg) (\<lambda>a_avg1.
          Inr \<lparr>total_readings = total, avg_sugar = avg1, min_sugar = mn, max_sugar = mx,
               before_avg = b_avg1, after_avg = a_avg1\<rparr>))))"

definition dashboard :: "store \<Rightarrow> user \<Rightarrow> outcome" where
  "dashboard st cu =
     (if role cu = ''admin'' then reply st [] (Redirect ''admin_dashboard'')
      else
        (case dashboard_stats (filter_by_user_id (uid cu) (readings st)) of
           Inl e \<Rightarrow> uncaught st e
         | Inr s \<Rightarrow>
             reply st []
               (Render_dashboard
                  (take 10 (order_by_desc order_key (filter_by_user_id (uid cu) (readings st))))
                  s)))"

definition new_reading :: "env \<Rightarrow> store \<Rightarrow> user \<Rightarrow> request \<Rightarrow> py_error + reading" where
  "new_reading E st cu req =
     bindE (form_item req ''date'') (\<lambda>ds.
     bindE (date_of_form E ds) (\<lambda>d.
     bindE (form_item req ''time_of_day'') (\<lambda>t.
     bindE (form_item req ''meal_relation'') (\<lambda>m.
     bindE (form_item req ''sugar_value'') (\<lambda>ss.
     bindE (int_of_form E ss) (\<lambda>v.
     bindE (form_item req ''food_eaten'') (\<lambda>f.
     Inr \<lparr>rid = next_id (map rid (readings st)), user_id = uid cu, date = d, time_of_day = t,
          meal_relation = m, sugar_value = v, food_eaten = Some f,
          created_at = utcnow E\<rparr>)))))))"

definition add_reading :: "env \<Rightarrow> store \<Rightarrow> user \<Rightarrow> request \<Rightarrow> outcome" where
  "add_reading E st cu req =
     (case new_reading E st cu req of
        Inl e \<Rightarrow> uncaught st e
      | Inr r \<Rightarrow>
          if sqlite_int (sugar_value r) then
            reply (st\<lparr>readings := readings st @ [r]\<rparr>)
              [(Msg ''Reading added successfully!'', ''success'')] (Redirect ''dashboard'')
          else uncaught st OverflowError)"

definition history :: "store \<Rightarrow> user \<Rightarrow> outcome" where
  "history st cu =
     (if role cu = ''admin'' then reply st [] (Redirect ''manage_readings'')
      else reply st []
             (Render_history (order_by_desc order_key (filter_by_user_id (uid cu) (readings st)))))"

text \<open>
  \<open>update_profile\<close>, first the assignments to \<open>current_user\<close> inside the \<open>try\<close> up to the
  password: the name if one is given, then the four ranges.
\<close>

definition profile_edits :: "env \<Rightarrow> user \<Rightarrow> request \<Rightarrow> py_error + user" where
  "profile_edits E cu req =
     (let u1 = (case map_of (form req) ''name'' of
                  None \<Rightarrow> cu
                | Some n \<Rightarrow> if py_strip E n \<noteq> [] then cu\<lparr>name := Some (py_strip E n)\<rparr> else cu)
      in
     bindE (form_item req ''before_food_min'') (\<lambda>s1. bindE (int_of_form E s1) (\<lambda>v1.
     bindE (form_item req ''before_food_max'') (\<lambda>s2. bindE (int_of_form E s2) (\<lambda>v2.
     bindE (form_item req ''after_food_min'') (\<lambda>s3. bindE (int_of_form E s3) (\<lambda>v3.
     bindE (form_item req ''after_food_max'') (\<lambda>s4. bindE (int_of_form E s4) (\<lambda>v4.
     Inr (u1\<lparr>before_food_min := v1, before_food_max := v2,
              after_food_min := v3, after_food_max := v4\<rparr>))))))))))"

text \<open>
  The end of \<open>update_profile\<close> once a success message \<open>ok\<close> has been flashed:
  \<open>db.session.commit()\<close> writes the row, or raises \<open>OverflowError\<close> when one of the four
  ranges does not fit the column; the \<open>except\<close> clause then rolls back and flashes the
  error after the message already flashed.
\<close>

definition commit_profile :: "store \<Rightarrow> user \<Rightarrow> message \<times> string \<Rightarrow> outcome" where
  "commit_profile st u ok =
     (if sqlite_int (before_food_min u) \<and> sqlite_int (before_food_max u)
         \<and> sqlite_int (after_food_min u) \<and> sqlite_int (after_food_max u)
      then reply (commit_user st u) [ok] (Redirect ''profile'')
      else reply st [ok, (Msg_exc ''Error updating profile: '' OverflowError, ''error'')]
             (Redirect ''profile''))"

definition update_profile :: "env \<Rightarrow> store \<Rightarrow> user \<Rightarrow> request \<Rightarrow> outcome" where
  "update_profile E st cu req =
     (case profile_edits E cu req of
        Inl e \<Rightarrow> reply st [(Msg_exc ''Error updating profile: '' e, ''error'')] (Redirect ''profile'')
      | Inr u \<Rightarrow>
          let new_password = py_strip E (form_get req ''new_password'' []);
              confirm_password = py_strip E (form_get req ''confirm_password'' [])
          in if new_password \<noteq> [] then
               if new_password = confirm_password then
                 commit_profile st (u\<lparr>password_hash := generate_password_hash E new_password\<rparr>)
                   (Msg ''Profile and password updated successfully!'', ''success'')
               else reply st [(Msg ''Passwords do not match!'', ''error'')] (Redirect ''profile'')
             else commit_profile st u (Msg ''Profile updated successfully!'', ''success''))"



definition manage_readings :: "store \<Rightarrow> user \<Rightarrow> outcome" where
  "manage_readings st cu =
     (if role cu \<noteq> ''admin'' then reply st [] (Redirect ''dashboard'')
      else reply st [] (Render_manage_readings (order_by_desc order_key (join_user st))))"

definition toggle_user :: "store \<Rightarrow> user \<Rightarrow> int \<Rightarrow> outcome" where
  "toggle_user st cu i =
     (if role cu \<noteq> ''admin'' then reply st [] (Redirect ''dashboard'')
      else (case get_user st i of
              None \<Rightarrow> if sqlite_int i then reply st [] (Abort 404) else uncaught st OverflowError
            | Some u \<Rightarrow>
                reply (commit_user st (u\<lparr>is_active := \<not> is_active u\<rparr>))
                  [(Msg (''User '' @ email u @ '' has been '' @
                         (if \<not> is_active u then ''activated'' else ''deactivated'') @ ''.''),
                    ''success'')]
                  (Redirect ''manage_users'')))"


text \<open>
  \<open>chart_data\<close>: the dictionary built for one reading, \<open>AttributeError\<close> where
  \<open>reading.user\<close> is \<open>None\<close>, and the loop that appends it to one of the two lists.
\<close>

definition point :: "env \<Rightarrow> string option \<Rightarrow> reading \<Rightarrow> data_point" where
  "point E em r =
     \<lparr>dp_x = strftime_date E (date r), dp_y = sugar_value r, dp_food = food_eaten r,
      dp_time = time_of_day r, dp_user_email = em\<rparr>"

definition data_point_of :: "env \<Rightarrow> store \<Rightarrow> user \<Rightarrow> reading \<Rightarrow> py_error + data_point" where
  "data_point_of E st cu r =
     bindE
       (if role cu = ''admin'' then
          (case reading_user st r of None \<Rightarrow> Inl AttributeError | Some u \<Rightarrow> Inr (Some (email u)))
        else Inr None)
       (\<lambda>em. Inr (point E em r))"

fun chart_loop ::
  "(reading \<Rightarrow> py_error + data_point) \<Rightarrow> reading list \<Rightarrow> data_point list \<Rightarrow> data_point list
     \<Rightarrow> py_error + data_point list \<times> data_point list" where
  "chart_loop mk [] before_food_data after_food_data = Inr (before_food_data, after_food_data)"
| "chart_loop mk (r # rs) before_food_data after_food_data =
     (case mk r of
        Inl e \<Rightarrow> Inl e
      | Inr p \<Rightarrow>
          if meal_relation r = ''Before Food''
          then chart_loop mk rs (before_food_data @ [p]) after_food_data
          else chart_loop mk rs before_food_data (after_food_data @ [p]))"

definition chart_readings :: "store \<Rightarrow> user \<Rightarrow> reading list" where
  "chart_readings st cu =
     (if role cu = ''admin'' then order_by_asc date (join_user st)
      else order_by_asc date (filter_by_user_id (uid cu) (readings st)))"

definition chart_data :: "env \<Rightarrow> store \<Rightarrow> user \<Rightarrow> outcome" where
  "chart_data E st cu =
     (case chart_loop (data_point_of E st cu) (chart_readings st cu) [] [] of
        Inl e \<Rightarrow> uncaught st e
      | Inr (bs, as) \<Rightarrow>
          reply st []
            (Json_chart \<lparr>before_food = bs, after_food = as,
               before_food_range = (before_food_min cu, before_food_max cu),
               after_food_range = (after_food_min cu, after_food_max cu)\<rparr>))"

section \<open>The statistics as the specification words them\<close>



text \<open>
  The order of the reading lists: \<open>a\<close> may stand before \<open>b\<close> when its date is later, or the
  dates are equal and it was not created earlier.
\<close>

definition newer_first :: "reading \<Rightarrow> reading \<Rightarrow> bool" where
  "newer_first a b \<longleftrightarrow> date b < date a \<or> (date a = date b \<and> created_at b \<le> created_at a)"

section \<open>A small database for concrete runs\<close>

definition ex_env :: env where
  "ex_env =
     \<lparr>generate_password_hash = (\<lambda>p. ''scrypt$'' @ p),
      check_password_hash = (\<lambda>h p. h = ''scrypt$'' @ p),
      py_int = map_of [(''70'', 70), (''80'', 80), (''95'', 95), (''130'', 130), (''140'', 140),
                       (''180'', 180), (''9223372036854775808'', 9223372036854775808)],
      strptime_date = map_of [(''2025-03-01'', (2025, 3, 1)), (''2025-03-02'', (2025, 3, 2))],
      strftime_date = (\<lambda>d. if d = (2025, 3, 1) then ''2025-03-01''
                            else if d = (2025, 3, 2) then ''2025-03-02'' else ''2025-03-03''),
      py_strip = (\<lambda>s. rev (dropWhile (\<lambda>c. c = CHR '' '') (rev (dropWhile (\<lambda>c. c = CHR '' '') s)))),
      utcnow = 500\<rparr>"

definition ex_user :: "int \<Rightarrow> string \<Rightarrow> string \<Rightarrow> bool \<Rightarrow> user" where
  "ex_user i em ro act =
     \<lparr>uid = i, email = em, name = None, password_hash = ''scrypt$pw'' @ em, role = ro,
      is_active = act, before_food_min = 80, before_food_max = 130, after_food_min = 90,
      after_food_max = 180\<rparr>"

definition ex_alice :: user where "ex_alice = ex_user 1 ''alice@x.org'' ''user'' True"
definition ex_bob :: user where "ex_bob = ex_user 2 ''bob@x.org'' ''user'' False"
definition ex_root :: user where "ex_root = ex_user 3 ''root@x.org'' ''admin'' True"
definition ex_carol :: user where "ex_carol = ex_user 4 ''carol@x.org'' ''user'' True"

definition ex_reading :: "int \<Rightarrow> int \<Rightarrow> date \<Rightarrow> string \<Rightarrow> int \<Rightarrow> datetime \<Rightarrow> reading" where
  "ex_reading i u d m v t =
     \<lparr>rid = i, user_id = u, date = d, time_of_day = ''Morning'', meal_relation = m,
      sugar_value = v, food_eaten = Some ''idli'', created_at = t\<rparr>"

definition ex_readings :: "reading list" where
  "ex_readings =
     [ex_reading 1 1 (2025, 3, 1) ''Before Food'' 100 10,
      ex_reading 2 1 (2025, 3, 2) ''Before Food'' 120 20,
      ex_reading 3 1 (2025, 3, 2) ''After Food'' 200 30,
      ex_reading 4 2 (2025, 3, 1) ''Fasting'' 90 40]"

definition ex_store :: store where
  "ex_store = \<lparr>users = [ex_alice, ex_bob, ex_root, ex_carol], readings = ex_readings\<rparr>"

text \<open>A user with eleven readings.\<close>

definition ex_many :: store where
  "ex_many =
     \<lparr>users = [ex_alice],
      readings = map (\<lambda>i. ex_reading i 1 (2025, 3, 1) ''Before Food'' 100 i)
        [1, 2, 3, 4, 5, 6, 7, 8, 9, 10, 11]\<rparr>"

section \<open>Properties\<close>

subsection \<open>Looking rows up\<close>


lemma find_Some_key: "find (\<lambda>r. f r = i) xs = Some r \<Longrightarrow> f r = i \<and> r \<in> set xs"
  by (auto simp: find_Some_iff)

lemmas ex_defs = ex_store_def ex_readings_def ex_reading_def ex_alice_def ex_bob_def ex_root_def
  ex_carol_def ex_user_def

subsection \<open>Deleting a reading\<close>

lemma uncaught_overflow: "uncaught st OverflowError = reply st [] (Raise OverflowError)"
  by (simp add: uncaught_def)




subsection \<open>The statistics\<close>

lemma bindE_Inr [simp]: "bindE (Inr x) f = f x"
  by (simp add: bindE_def)

lemma bindE_Inl [simp]: "bindE (Inl e) f = Inl e"
  by (simp add: bindE_def)

lemma bindE_eq_Inr: "bindE m f = Inr y \<longleftrightarrow> (\<exists>x. m = Inr x \<and> f x = Inr y)"
  by (cases m) simp_all

lemma py_round1_zero: "py_round1 0 = Inr 0"
  by (simp add: py_round1_def to_double_def nearest_double_def round_half_even_def dbl_max_def)




















subsection \<open>No readings, and no division by zero\<close>











subsection \<open>The chart data\<close>

lemma chart_loop_all_points:
  "\<forall>r \<in> set rs. mk r = Inr (g r) \<Longrightarrow>
   chart_loop mk rs bs as =
     Inr (bs @ map g (filter (\<lambda>r. meal_relation r = ''Before Food'') rs),
          as @ map g (filter (\<lambda>r. meal_relation r \<noteq> ''Before Food'') rs))"
  by (induction rs arbitrary: bs as) simp_all

lemma set_join_user:
  "set (join_user st) = {r \<in> set (readings st). \<exists>u \<in> set (users st). uid u = user_id r}"
  by (auto simp: join_user_def)

lemma find_Some_ex: "\<exists>u \<in> set xs. P u \<Longrightarrow> \<exists>v. find P xs = Some v \<and> P v \<and> v \<in> set xs"
  by (induction xs) auto

lemma reading_user_joined:
  assumes "r \<in> set (join_user st)"
  shows "\<exists>u. reading_user st r = Some u \<and> uid u = user_id r \<and> u \<in> set (users st)"
proof -
  from assms have "\<exists>u \<in> set (users st). uid u = user_id r"
    by (simp add: set_join_user)
  then show ?thesis
    unfolding reading_user_def get_user_def by (rule find_Some_ex)
qed

text \<open>The email the chart shows for a reading: that of the user \<open>reading.user\<close>.\<close>

lemma data_point_of_user:
  "role cu \<noteq> ''admin'' \<Longrightarrow> data_point_of E st cu r = Inr (point E None r)"
  by (simp add: data_point_of_def)

lemma data_point_of_admin:
  assumes "role cu = ''admin''" and "r \<in> set (join_user st)"
  shows "data_point_of E st cu r = Inr (point E (map_option email (reading_user st r)) r)"
proof -
  from reading_user_joined [OF assms(2)] obtain u where "reading_user st r = Some u"
    by blast
  with assms(1) show ?thesis
    by (simp add: data_point_of_def)
qed

lemma chart_data_user:
  assumes "role cu \<noteq> ''admin''"
  shows "chart_data E st cu =
     reply st []
       (Json_chart
          \<lparr>before_food = map (point E None)
             (filter (\<lambda>r. meal_relation r = ''Before Food'') (chart_readings st cu)),
           after_food = map (point E None)
             (filter (\<lambda>r. meal_relation r \<noteq> ''Before Food'') (chart_readings st cu)),
           before_food_range = (before_food_min cu, before_food_max cu),
           after_food_range = (after_food_min cu, after_food_max cu)\<rparr>)"
proof -
  have "\<forall>r \<in> set (chart_readings st cu). data_point_of E st cu r = Inr (point E None r)"
    using assms by (simp add: data_point_of_user)
  from chart_loop_all_points [OF this, of "[]" "[]"] show ?thesis
    by (simp add: chart_data_def)
qed

lemma chart_data_admin:
  assumes "role cu = ''admin''"
  shows "chart_data E st cu =
     reply st []
       (Json_chart
          \<lparr>before_food = map (\<lambda>r. point E (map_option email (reading_user st r)) r)
             (filter (\<lambda>r. meal_relation r = ''Before Food'') (chart_readings st cu)),
           after_food = map (\<lambda>r. point E (map_option email (reading_user st r)) r)
             (filter (\<lambda>r. meal_relation r \<noteq> ''Before Food'') (chart_readings st cu)),
           before_food_range = (before_food_min cu, before_food_max cu),
           after_food_range = (after_food_min cu, after_food_max cu)\<rparr>)"
proof -
  have "\<forall>r \<in> set (chart_readings st cu).
      data_point_of E st cu r = Inr (point E (map_option email (reading_user st r)) r)"
    using assms by (simp add: chart_readings_def order_by_asc_def data_point_of_admin)
  from chart_loop_all_points [OF this, of "[]" "[]"] show ?thesis
    by (simp add: chart_data_def)
qed

lemma chart_readings_user:
  "role cu \<noteq> ''admin'' \<Longrightarrow>
   mset (chart_readings st cu) = mset (filter_by_user_id (uid cu) (readings st))"
  by (simp add: chart_readings_def order_by_asc_def)

lemma chart_readings_admin:
  "role cu = ''admin'' \<Longrightarrow> set (chart_readings st cu) = set (join_user st)"
  by (simp add: chart_readings_def order_by_asc_def)

text \<open>
  C3. For an actor who is not an admin, \<open>chart_data\<close> answers with the chart of the
  actor's own readings, one data point for each, and \<open>user_email\<close> is \<open>None\<close> in every data
  point of both sequences. For an admin every data point is that of a reading of the
  database whose \<open>user_email\<close> is the email of a user whose id is the reading's
  \<open>user_id\<close>.
\<close>

theorem chart_owner_email:
  "(role cu \<noteq> ''admin'' \<longrightarrow>
      (\<exists>c. response (chart_data E st cu) = Json_chart c
         \<and> (\<forall>p \<in> set (before_food c @ after_food c). dp_user_email p = None)
         \<and> length (before_food c) + length (after_food c)
             = length (filter_by_user_id (uid cu) (readings st))))
   \<and> (role cu = ''admin'' \<longrightarrow>
      (\<exists>c. response (chart_data E st cu) = Json_chart c
         \<and> (\<forall>p \<in> set (before_food c @ after_food c).
               \<exists>r \<in> set (readings st). \<exists>u \<in> set (users st).
                 uid u = user_id r \<and> reading_user st r = Some u
                 \<and> p = point E (Some (email u)) r \<and> dp_user_email p = Some (email u))))"
proof (intro conjI impI)
  assume u: "role cu \<noteq> ''admin''"
  let ?c = "\<lparr>before_food = map (point E None)
             (filter (\<lambda>r. meal_relation r = ''Before Food'') (chart_readings st cu)),
           after_food = map (point E None)
             (filter (\<lambda>r. meal_relation r \<noteq> ''Before Food'') (chart_readings st cu)),
           before_food_range = (before_food_min cu, before_food_max cu),
           after_food_range = (after_food_min cu, after_food_max cu)\<rparr>"
  have 1: "response (chart_data E st cu) = Json_chart ?c"
    by (simp add: chart_data_user [OF u] reply_def)
  have 2: "\<forall>p \<in> set (before_food ?c @ after_food ?c). dp_user_email p = None"
    by (auto simp: point_def)
  have "length (before_food ?c) + length (after_food ?c) = length (chart_readings st cu)"
    by (simp add: sum_length_filter_compl)
  also have "\<dots> = size (mset (chart_readings st cu))"
    by simp
  also have "\<dots> = length (filter_by_user_id (uid cu) (readings st))"
    by (simp only: chart_readings_user [OF u] size_mset)
  finally have 3: "length (before_food ?c) + length (after_food ?c)
      = length (filter_by_user_id (uid cu) (readings st))" .
  from 1 2 3 show "\<exists>c. response (chart_data E st cu) = Json_chart c
         \<and> (\<forall>p \<in> set (before_food c @ after_food c). dp_user_email p = None)
         \<and> length (before_food c) + length (after_food c)
             = length (filter_by_user_id (uid cu) (readings st))"
    by blast
next
  assume a: "role cu = ''admin''"
  let ?g = "\<lambda>r. point E (map_option email (reading_user st r)) r"
  let ?c = "\<lparr>before_food = map ?g
             (filter (\<lambda>r. meal_relation r = ''Before Food'') (chart_readings st cu)),
           after_food = map ?g
             (filter (\<lambda>r. meal_relation r \<noteq> ''Before Food'') (chart_readings st cu)),
           before_food_range = (before_food_min cu, before_food_max cu),
           after_food_range = (after_food_min cu, after_food_max cu)\<rparr>"
  have 1: "response (chart_data E st cu) = Json_chart ?c"
    by (simp add: chart_data_admin [OF a] reply_def)
  have 2: "\<exists>r \<in> set (readings st). \<exists>u \<in> set (users st).
                 uid u = user_id r \<and> reading_user st r = Some u
                 \<and> p = point E (Some (email u)) r \<and> dp_user_email p = Some (email u)"
    if "p \<in> set (before_food ?c @ after_food ?c)" for p
  proof -
    from that obtain r where r: "r \<in> set (chart_readings st cu)" and p: "p = ?g r"
      by auto
    from r have j: "r \<in> set (join_user st)"
      by (simp add: chart_readings_admin [OF a])
    then have m: "r \<in> set (readings st)"
      by (simp add: set_join_user)
    from reading_user_joined [OF j] obtain u where
      "reading_user st r = Some u" "uid u = user_id r" "u \<in> set (users st)"
      by blast
    with m p show ?thesis
      by (auto simp: point_def)
  qed
  from 1 2 show "\<exists>c. response (chart_data E st cu) = Json_chart c
         \<and> (\<forall>p \<in> set (before_food c @ after_food c).
               \<exists>r \<in> set (readings st). \<exists>u \<in> set (users st).
                 uid u = user_id r \<and> reading_user st r = Some u
                 \<and> p = point E (Some (email u)) r \<and> dp_user_email p = Some (email u))"
    by blast
qed

lemma ex_chart_readings:
  "chart_readings ex_store ex_alice =
     [ex_reading 1 1 (2025, 3, 1) ''Before Food'' 100 10,
      ex_reading 2 1 (2025, 3, 2) ''Before Food'' 120 20,
      ex_reading 3 1 (2025, 3, 2) ''After Food'' 200 30]"
  "chart_readings ex_store ex_bob = [ex_reading 4 2 (2025, 3, 1) ''Fasting'' 90 40]"
  "chart_readings ex_store ex_root =
     [ex_reading 1 1 (2025, 3, 1) ''Before Food'' 100 10,
      ex_reading 4 2 (2025, 3, 1) ''Fasting'' 90 40,
      ex_reading 2 1 (2025, 3, 2) ''Before Food'' 120 20,
      ex_reading 3 1 (2025, 3, 2) ''After Food'' 200 30]"
  by (simp_all add: chart_readings_def order_by_asc_def filter_by_user_id_def join_user_def
      ex_defs)

lemma ex_chart_alice:
  "response (chart_data ex_env ex_store ex_alice) =
     Json_chart
       \<lparr>before_food =
          [point ex_env None (ex_reading 1 1 (2025, 3, 1) ''Before Food'' 100 10),
           point ex_env None (ex_reading 2 1 (2025, 3, 2) ''Before Food'' 120 20)],
        after_food = [point ex_env None (ex_reading 3 1 (2025, 3, 2) ''After Food'' 200 30)],
        before_food_range = (80, 130), after_food_range = (90, 180)\<rparr>"
proof -
  have "role ex_alice \<noteq> ''admin''"
    by (simp add: ex_defs)
  from chart_data_user [OF this, of ex_env ex_store] show ?thesis
    by (simp add: ex_chart_readings reply_def) (simp add: ex_defs)
qed

lemma ex_chart_bob:
  "response (chart_data ex_env ex_store ex_bob) =
     Json_chart
       \<lparr>before_food = [],
        after_food = [point ex_env None (ex_reading 4 2 (2025, 3, 1) ''Fasting'' 90 40)],
        before_food_range = (80, 130), after_food_range = (90, 180)\<rparr>"
proof -
  have "role ex_bob \<noteq> ''admin''"
    by (simp add: ex_defs)
  from chart_data_user [OF this, of ex_env ex_store] show ?thesis
    by (simp add: ex_chart_readings reply_def) (simp add: ex_defs)
qed

lemma ex_chart_root:
  "response (chart_data ex_env ex_store ex_root) =
     Json_chart
       \<lparr>before_food =
          [point ex_env (Some ''alice@x.org'') (ex_reading 1 1 (2025, 3, 1) ''Before Food'' 100 10),
           point ex_env (Some ''alice@x.org'') (ex_reading 2 1 (2025, 3, 2) ''Before Food'' 120 20)],
        after_food =
          [point ex_env (Some ''bob@x.org'') (ex_reading 4 2 (2025, 3, 1) ''Fasting'' 90 40),
           point ex_env (Some ''alice@x.org'') (ex_reading 3 1 (2025, 3, 2) ''After Food'' 200 30)],
        before_food_range = (80, 130), after_food_range = (90, 180)\<rparr>"
proof -
  have "role ex_root = ''admin''"
    by (simp add: ex_defs)
  from chart_data_admin [OF this, of ex_env ex_store] show ?thesis
    by (simp add: ex_chart_readings reply_def reading_user_def get_user_def)
      (simp add: ex_defs)
qed

theorem chart_owner_email_witness:
  "role ex_alice \<noteq> ''admin'' \<and> role ex_root = ''admin''
   \<and> response (chart_data ex_env ex_store ex_alice) =
     Json_chart
       \<lparr>before_food =
          [point ex_env None (ex_reading 1 1 (2025, 3, 1) ''Before Food'' 100 10),
           point ex_env None (ex_reading 2 1 (2025, 3, 2) ''Before Food'' 120 20)],
        after_food = [point ex_env None (ex_reading 3 1 (2025, 3, 2) ''After Food'' 200 30)],
        before_food_range = (80, 130), after_food_range = (90, 180)\<rparr>
   \<and> response (chart_data ex_env ex_store ex_root) =
     Json_chart
       \<lparr>before_food =
          [point ex_env (Some ''alice@x.org'') (ex_reading 1 1 (2025, 3, 1) ''Before Food'' 100 10),
           point ex_env (Some ''alice@x.org'') (ex_reading 2 1 (2025, 3, 2) ''Before Food'' 120 20)],
        after_food =
          [point ex_env (Some ''bob@x.org'') (ex_reading 4 2 (2025, 3, 1) ''Fasting'' 90 40),
           point ex_env (Some ''alice@x.org'') (ex_reading 3 1 (2025, 3, 2) ''After Food'' 200 30)],
        before_food_range = (80, 130), after_food_range = (90, 180)\<rparr>"
proof -
  have r: "role ex_alice \<noteq> ''admin''" "role ex_root = ''admin''"
    by (simp_all add: ex_defs)
  show ?thesis
    using r ex_chart_alice ex_chart_root
      chart_owner_email [of ex_alice ex_env ex_store]
      chart_owner_email [of ex_root ex_env ex_store]
    by - (intro conjI; assumption)
qed

text \<open>
  C10. \<open>chart_data\<close> puts the data point of a reading into \<open>before_food\<close> when its
  \<open>meal_relation\<close> is exactly \<open>Before Food\<close> and into \<open>after_food\<close> in every other case, so
  a reading with an unknown \<open>meal_relation\<close> is in \<open>after_food\<close>. The two sequences
  together hold one data point for each of the actor's readings (for an admin: for each
  reading of the join with the users).
\<close>

theorem chart_unknown_meal_relation:
  "(role cu \<noteq> ''admin'' \<longrightarrow>
      (\<exists>c. response (chart_data E st cu) = Json_chart c
         \<and> before_food c = map (point E None)
              (filter (\<lambda>r. meal_relation r = ''Before Food'') (chart_readings st cu))
         \<and> after_food c = map (point E None)
              (filter (\<lambda>r. meal_relation r \<noteq> ''Before Food'') (chart_readings st cu))
         \<and> mset (before_food c @ after_food c)
              = mset (map (point E None) (filter_by_user_id (uid cu) (readings st)))
         \<and> (\<forall>r \<in> set (readings st). user_id r = uid cu \<and> meal_relation r \<noteq> ''Before Food''
               \<longrightarrow> point E None r \<in> set (after_food c))))
   \<and> (role cu = ''admin'' \<longrightarrow>
      (\<exists>c. response (chart_data E st cu) = Json_chart c
         \<and> before_food c = map (\<lambda>r. point E (map_option email (reading_user st r)) r)
              (filter (\<lambda>r. meal_relation r = ''Before Food'') (chart_readings st cu))
         \<and> after_food c = map (\<lambda>r. point E (map_option email (reading_user st r)) r)
              (filter (\<lambda>r. meal_relation r \<noteq> ''Before Food'') (chart_readings st cu))
         \<and> mset (before_food c @ after_food c)
              = mset (map (\<lambda>r. point E (map_option email (reading_user st r)) r) (join_user st))
         \<and> (\<forall>r \<in> set (join_user st). meal_relation r \<noteq> ''Before Food''
               \<longrightarrow> point E (map_option email (reading_user st r)) r \<in> set (after_food c))))"
proof (intro conjI impI)
  assume u: "role cu \<noteq> ''admin''"
  let ?rows = "chart_readings st cu"
  let ?c = "\<lparr>before_food = map (point E None)
             (filter (\<lambda>r. meal_relation r = ''Before Food'') ?rows),
           after_food = map (point E None)
             (filter (\<lambda>r. meal_relation r \<noteq> ''Before Food'') ?rows),
           before_food_range = (before_food_min cu, before_food_max cu),
           after_food_range = (after_food_min cu, after_food_max cu)\<rparr>"
  have 1: "response (chart_data E st cu) = Json_chart ?c"
    by (simp add: chart_data_user [OF u] reply_def)
  have "mset (before_food ?c @ after_food ?c) = image_mset (point E None) (mset ?rows)"
    by (simp flip: image_mset_union)
  then have 2: "mset (before_food ?c @ after_food ?c)
      = mset (map (point E None) (filter_by_user_id (uid cu) (readings st)))"
    by (simp add: chart_readings_user [OF u])
  have s: "set ?rows = set (filter_by_user_id (uid cu) (readings st))"
    using chart_readings_user [OF u, of st] by (metis set_mset_mset)
  have 3: "\<forall>r \<in> set (readings st). user_id r = uid cu \<and> meal_relation r \<noteq> ''Before Food''
      \<longrightarrow> point E None r \<in> set (after_food ?c)"
    by (auto simp: s filter_by_user_id_def)
  from 1 2 3 show "\<exists>c. response (chart_data E st cu) = Json_chart c
         \<and> before_food c = map (point E None)
              (filter (\<lambda>r. meal_relation r = ''Before Food'') (chart_readings st cu))
         \<and> after_food c = map (point E None)
              (filter (\<lambda>r. meal_relation r \<noteq> ''Before Food'') (chart_readings st cu))
         \<and> mset (before_food c @ after_food c)
              = mset (map (point E None) (filter_by_user_id (uid cu) (readings st)))
         \<and> (\<forall>r \<in> set (readings st). user_id r = uid cu \<and> meal_relation r \<noteq> ''Before Food''
               \<longrightarrow> point E None r \<in> set (after_food c))"
    by (intro exI [of _ ?c]) simp
next
  assume a: "role cu = ''admin''"
  let ?rows = "chart_readings st cu"
  let ?g = "\<lambda>r. point E (map_option email (reading_user st r)) r"
  let ?c = "\<lparr>before_food = map ?g (filter (\<lambda>r. meal_relation r = ''Before Food'') ?rows),
           after_food = map ?g (filter (\<lambda>r. meal_relation r \<noteq> ''Before Food'') ?rows),
           before_food_range = (before_food_min cu, before_food_max cu),
           after_food_range = (after_food_min cu, after_food_max cu)\<rparr>"
  have 1: "response (chart_data E st cu) = Json_chart ?c"
    by (simp add: chart_data_admin [OF a] reply_def)
  have "mset (before_food ?c @ after_food ?c) = image_mset ?g (mset ?rows)"
    by (simp flip: image_mset_union)
  then have 2: "mset (before_food ?c @ after_food ?c) = mset (map ?g (join_user st))"
    using a by (simp add: chart_readings_def order_by_asc_def)
  have 3: "\<forall>r \<in> set (join_user st). meal_relation r \<noteq> ''Before Food''
      \<longrightarrow> ?g r \<in> set (after_food ?c)"
    by (auto simp: chart_readings_admin [OF a])
  from 1 2 3 show "\<exists>c. response (chart_data E st cu) = Json_chart c
         \<and> before_food c = map ?g
              (filter (\<lambda>r. meal_relation r = ''Before Food'') (chart_readings st cu))
         \<and> after_food c = map ?g
              (filter (\<lambda>r. meal_relation r \<noteq> ''Before Food'') (chart_readings st cu))
         \<and> mset (before_food c @ after_food c) = mset (map ?g (join_user st))
         \<and> (\<forall>r \<in> set (join_user st). meal_relation r \<noteq> ''Before Food''
               \<longrightarrow> ?g r \<in> set (after_food c))"
    by (intro exI [of _ ?c]) simp
qed

theorem chart_unknown_meal_relation_witness:
  "role ex_bob \<noteq> ''admin'' \<and> role ex_root = ''admin''
   \<and> response (chart_data ex_env ex_store ex_bob) =
     Json_chart
       \<lparr>before_food = [],
        after_food = [point ex_env None (ex_reading 4 2 (2025, 3, 1) ''Fasting'' 90 40)],
        before_food_range = (80, 130), after_food_range = (90, 180)\<rparr>
   \<and> response (chart_data ex_env ex_store ex_root) =
     Json_chart
       \<lparr>before_food =
          [point ex_env (Some ''alice@x.org'') (ex_reading 1 1 (2025, 3, 1) ''Before Food'' 100 10),
           point ex_env (Some ''alice@x.org'') (ex_reading 2 1 (2025, 3, 2) ''Before Food'' 120 20)],
        after_food =
          [point ex_env (Some ''bob@x.org'') (ex_reading 4 2 (2025, 3, 1) ''Fasting'' 90 40),
           point ex_env (Some ''alice@x.org'') (ex_reading 3 1 (2025, 3, 2) ''After Food'' 200 30)],
        before_food_range = (80, 130), after_food_range = (90, 180)\<rparr>"
proof -
  have r: "role ex_bob \<noteq> ''admin''" "role ex_root = ''admin''"
    by (simp_all add: ex_defs)
  show ?thesis
    using r ex_chart_bob ex_chart_root
      chart_unknown_meal_relation [of ex_bob ex_env ex_store]
      chart_unknown_meal_relation [of ex_root ex_env ex_store]
    by - (intro conjI; assumption)
qed

subsection \<open>Signing up\<close>

lemma next_id_fresh: "next_id ids \<notin> set ids"
proof (cases "ids = []")
  case True
  then show ?thesis by simp
next
  case False
  have "i < next_id ids" if "i \<in> set ids" for i
  proof -
    from that have "i \<le> Max (set ids)"
      by simp
    with False show ?thesis
      by (simp add: next_id_def)
  qed
  then show ?thesis by blast
qed

lemma filter_by_email_None: "filter_by_email em us = None \<longleftrightarrow> em \<notin> email ` set us"
  by (auto simp: filter_by_email_def find_None_iff)

lemma filter_by_email_Some:
  "filter_by_email em us = Some u \<Longrightarrow> email u = em \<and> u \<in> set us"
  by (auto simp: filter_by_email_def find_Some_iff)

lemma form_item_Inr: "form_item req k = Inr v \<longleftrightarrow> map_of (form req) k = Some v"
  by (simp add: form_item_def split: option.splits)

text \<open>
  C4. A \<open>signup\<close> request whose email is already that of a user flashes
  \<open>Email already exists.\<close> and leaves the database as it was. With an email no user has,
  the users afterwards are the users before followed by one new row: its email is the one
  given, its role is \<open>user\<close>, it is active, its id is new, and its \<open>password_hash\<close> is
  what \<open>generate_password_hash\<close> returned for the password (so it is the raw password only
  if the hash function returned its own argument). The readings are untouched.
\<close>

theorem signup_contract:
  "(req_method req = ''POST'' \<and> form_item req ''email'' = Inr em
      \<and> form_item req ''password'' = Inr pw \<and> em \<in> email ` set (users st) \<longrightarrow>
      signup E st req = reply st [(Msg ''Email already exists.'', ''error'')] Render_signup)
   \<and> (req_method req = ''POST'' \<and> form_item req ''email'' = Inr em
      \<and> form_item req ''password'' = Inr pw \<and> em \<notin> email ` set (users st) \<longrightarrow>
      (\<exists>u. db (signup E st req) = st\<lparr>users := users st @ [u]\<rparr>
         \<and> email u = em \<and> role u = ''user'' \<and> is_active u
         \<and> uid u \<notin> uid ` set (users st)
         \<and> password_hash u = generate_password_hash E pw
         \<and> (generate_password_hash E pw \<noteq> pw \<longrightarrow> password_hash u \<noteq> pw))
      \<and> response (signup E st req) = Redirect ''login'')"
proof (intro conjI impI)
  assume h: "req_method req = ''POST'' \<and> form_item req ''email'' = Inr em
      \<and> form_item req ''password'' = Inr pw \<and> em \<in> email ` set (users st)"
  then have "filter_by_email em (users st) \<noteq> None"
    by (simp add: filter_by_email_None)
  then obtain u where "filter_by_email em (users st) = Some u"
    by blast
  with h show "signup E st req = reply st [(Msg ''Email already exists.'', ''error'')] Render_signup"
    by (simp add: signup_def)
next
  assume h: "req_method req = ''POST'' \<and> form_item req ''email'' = Inr em
      \<and> form_item req ''password'' = Inr pw \<and> em \<notin> email ` set (users st)"
  then have n: "filter_by_email em (users st) = None"
    by (simp add: filter_by_email_None)
  let ?u = "new_user E st em pw"
  from h n have d: "db (signup E st req) = st\<lparr>users := users st @ [?u]\<rparr>"
    by (simp add: signup_def reply_def)
  have f: "uid ?u \<notin> uid ` set (users st)"
    using next_id_fresh [of "map uid (users st)"] by (simp add: new_user_def)
  have "email ?u = em \<and> role ?u = ''user'' \<and> is_active ?u
      \<and> password_hash ?u = generate_password_hash E pw"
    by (simp add: new_user_def)
  with d f show "\<exists>u. db (signup E st req) = st\<lparr>users := users st @ [u]\<rparr>
         \<and> email u = em \<and> role u = ''user'' \<and> is_active u
         \<and> uid u \<notin> uid ` set (users st)
         \<and> password_hash u = generate_password_hash E pw
         \<and> (generate_password_hash E pw \<noteq> pw \<longrightarrow> password_hash u \<noteq> pw)"
    by (intro exI [of _ ?u]) simp
  from h n show "response (signup E st req) = Redirect ''login''"
    by (simp add: signup_def reply_def)
qed

theorem signup_contract_witness:
  "signup ex_env ex_store \<lparr>req_method = ''POST'',
       form = [(''email'', ''bob@x.org''), (''password'', ''secret'')]\<rparr>
     = reply ex_store [(Msg ''Email already exists.'', ''error'')] Render_signup
   \<and> users (db (signup ex_env ex_store \<lparr>req_method = ''POST'',
       form = [(''email'', ''dave@x.org''), (''password'', ''secret'')]\<rparr>))
     = [ex_alice, ex_bob, ex_root, ex_carol,
        \<lparr>uid = 5, email = ''dave@x.org'', name = None, password_hash = ''scrypt$secret'',
         role = ''user'', is_active = True, before_food_min = 80, before_food_max = 130,
         after_food_min = 90, after_food_max = 180\<rparr>]
   \<and> response (signup ex_env ex_store \<lparr>req_method = ''POST'',
       form = [(''email'', ''dave@x.org''), (''password'', ''secret'')]\<rparr>) = Redirect ''login''"
proof -
  let ?dup = "\<lparr>req_method = ''POST'',
       form = [(''email'', ''bob@x.org''), (''password'', ''secret'')]\<rparr>"
  let ?new = "\<lparr>req_method = ''POST'',
       form = [(''email'', ''dave@x.org''), (''password'', ''secret'')]\<rparr>"
  have a: "req_method ?dup = ''POST'' \<and> form_item ?dup ''email'' = Inr ''bob@x.org''
      \<and> form_item ?dup ''password'' = Inr ''secret'' \<and> ''bob@x.org'' \<in> email ` set (users ex_store)"
    by (simp add: form_item_def ex_defs)
  have b: "req_method ?new = ''POST'' \<and> form_item ?new ''email'' = Inr ''dave@x.org''
      \<and> form_item ?new ''password'' = Inr ''secret'' \<and> ''dave@x.org'' \<notin> email ` set (users ex_store)"
    by (simp add: form_item_def ex_defs)
  have c: "users (db (signup ex_env ex_store ?new))
     = [ex_alice, ex_bob, ex_root, ex_carol,
        \<lparr>uid = 5, email = ''dave@x.org'', name = None, password_hash = ''scrypt$secret'',
         role = ''user'', is_active = True, before_food_min = 80, before_food_max = 130,
         after_food_min = 90, after_food_max = 180\<rparr>]"
    by (simp add: signup_def form_item_def filter_by_email_def reply_def new_user_def next_id_def
        ex_env_def ex_defs)
  from signup_contract [of ?dup "''bob@x.org''" "''secret''" ex_store ex_env] a
  have "signup ex_env ex_store ?dup
     = reply ex_store [(Msg ''Email already exists.'', ''error'')] Render_signup"
    by blast
  moreover from signup_contract [of ?new "''dave@x.org''" "''secret''" ex_store ex_env] b
  have "response (signup ex_env ex_store ?new) = Redirect ''login''"
    by blast
  ultimately show ?thesis
    using c by blast
qed
subsection \<open>Logging in\<close>

lemma commit_user_keeps_email:
  assumes "find (\<lambda>v. email v = em) us = Some u" and "find (\<lambda>v. uid v = uid u) us = Some u"
    and "email u' = em" and "uid u' = uid u"
  shows "find (\<lambda>v. email v = em) (map (\<lambda>v. if uid v = uid u' then u' else v) us) = Some u'"
  using assms
proof (induction us)
  case Nil
  then show ?case by simp
next
  case (Cons x xs)
  show ?case
  proof (cases "email x = em")
    case True
    with Cons.prems show ?thesis
      by auto
  next
    case False
    from find_Some_key [OF Cons.prems(1)] have "email u = em"
      by simp
    with False have "x \<noteq> u"
      by auto
    with Cons.prems have "uid x \<noteq> uid u"
      by auto
    with False Cons show ?thesis
      by auto
  qed
qed

text \<open>
  C5. A \<open>login\<close> request flashes \<open>Invalid email or password.\<close> and binds no session
  whenever no user has the email or the password does not verify against the hash stored
  for the user with that email. When the password verifies and the user is not active, it
  flashes \<open>Your account is deactivated. Please contact admin.\<close> and binds no session. When
  the password verifies and the user is active, the session is bound to that user's id.
  So a session is bound only for an active user whose password verifies, and a user whom
  \<open>toggle_user\<close> has just deactivated is refused with the correct password.
\<close>

theorem login_contract:
  "(req_method req = ''POST'' \<and> form_item req ''email'' = Inr em
      \<and> form_item req ''password'' = Inr pw \<longrightarrow>
      (em \<notin> email ` set (users st) \<longrightarrow>
         login E st req = reply st [(Msg ''Invalid email or password.'', ''error'')] Render_login)
      \<and> (\<forall>u. filter_by_email em (users st) = Some u
            \<and> \<not> check_password_hash E (password_hash u) pw \<longrightarrow>
         login E st req = reply st [(Msg ''Invalid email or password.'', ''error'')] Render_login)
      \<and> (\<forall>u. filter_by_email em (users st) = Some u
            \<and> check_password_hash E (password_hash u) pw \<and> \<not> is_active u \<longrightarrow>
         login E st req =
           reply st [(Msg ''Your account is deactivated. Please contact admin.'', ''error'')]
             Render_login)
      \<and> (\<forall>u. filter_by_email em (users st) = Some u
            \<and> check_password_hash E (password_hash u) pw \<and> is_active u \<longrightarrow>
         logged_in (login E st req) = Some (uid u) \<and> db (login E st req) = st
         \<and> response (login E st req)
             = Redirect (if role u = ''admin'' then ''admin_dashboard'' else ''dashboard''))
      \<and> (\<forall>u. filter_by_email em (users st) = Some u \<and> get_user st (uid u) = Some u
            \<and> check_password_hash E (password_hash u) pw \<and> is_active u
            \<and> role ad = ''admin'' \<longrightarrow>
         login E (db (toggle_user st ad (uid u))) req =
           reply (db (toggle_user st ad (uid u)))
             [(Msg ''Your account is deactivated. Please contact admin.'', ''error'')]
             Render_login))
   \<and> (\<forall>i. logged_in (login E st req) = Some i \<longrightarrow>
        (\<exists>u \<in> set (users st). uid u = i \<and> is_active u
           \<and> form_item req ''email'' = Inr (email u)
           \<and> (\<exists>pw. form_item req ''password'' = Inr pw
                 \<and> check_password_hash E (password_hash u) pw)))"
proof (intro conjI impI allI)
  assume h: "req_method req = ''POST'' \<and> form_item req ''email'' = Inr em
      \<and> form_item req ''password'' = Inr pw"
  assume "em \<notin> email ` set (users st)"
  then have "filter_by_email em (users st) = None"
    by (simp add: filter_by_email_None)
  with h show "login E st req = reply st [(Msg ''Invalid email or password.'', ''error'')] Render_login"
    by (simp add: login_def)
next
  fix u
  assume "req_method req = ''POST'' \<and> form_item req ''email'' = Inr em
      \<and> form_item req ''password'' = Inr pw"
    and "filter_by_email em (users st) = Some u
      \<and> \<not> check_password_hash E (password_hash u) pw"
  then show "login E st req = reply st [(Msg ''Invalid email or password.'', ''error'')] Render_login"
    by (simp add: login_def)
next
  fix u
  assume "req_method req = ''POST'' \<and> form_item req ''email'' = Inr em
      \<and> form_item req ''password'' = Inr pw"
    and "filter_by_email em (users st) = Some u
      \<and> check_password_hash E (password_hash u) pw \<and> \<not> is_active u"
  then show "login E st req =
      reply st [(Msg ''Your account is deactivated. Please contact admin.'', ''error'')]
        Render_login"
    by (simp add: login_def)
next
  fix u
  assume h: "req_method req = ''POST'' \<and> form_item req ''email'' = Inr em
      \<and> form_item req ''password'' = Inr pw"
    and u: "filter_by_email em (users st) = Some u
      \<and> check_password_hash E (password_hash u) pw \<and> is_active u"
  from h u show "logged_in (login E st req) = Some (uid u)"
    by (simp add: login_def reply_def)
  from h u show "db (login E st req) = st"
    by (simp add: login_def reply_def)
  from h u show "response (login E st req)
      = Redirect (if role u = ''admin'' then ''admin_dashboard'' else ''dashboard'')"
    by (simp add: login_def reply_def)
next
  fix u
  assume h: "req_method req = ''POST'' \<and> form_item req ''email'' = Inr em
      \<and> form_item req ''password'' = Inr pw"
    and u: "filter_by_email em (users st) = Some u \<and> get_user st (uid u) = Some u
      \<and> check_password_hash E (password_hash u) pw \<and> is_active u \<and> role ad = ''admin''"
  let ?u = "u\<lparr>is_active := \<not> is_active u\<rparr>"
  let ?st = "db (toggle_user st ad (uid u))"
  from u have t: "?st = commit_user st ?u"
    by (simp add: toggle_user_def reply_def)
  from u have "find (\<lambda>v. email v = em) (users st) = Some u"
    and "find (\<lambda>v. uid v = uid u) (users st) = Some u" and "email ?u = em" and "uid ?u = uid u"
    using filter_by_email_Some [of em "users st" u]
    by (simp_all add: filter_by_email_def get_user_def)
  then have "filter_by_email em (users ?st) = Some ?u"
    unfolding t filter_by_email_def commit_user_def
    using commit_user_keeps_email [of em "users st" u ?u] by simp
  with h u show "login E ?st req =
      reply ?st [(Msg ''Your account is deactivated. Please contact admin.'', ''error'')]
        Render_login"
    by (simp add: login_def)
next
  fix i
  assume l: "logged_in (login E st req) = Some i"
  then obtain em pw u where f: "form_item req ''email'' = Inr em"
    "form_item req ''password'' = Inr pw" and u: "filter_by_email em (users st) = Some u"
    and c: "check_password_hash E (password_hash u) pw" "is_active u" and i: "uid u = i"
    by (auto simp: login_def reply_def uncaught_def split: if_splits sum.splits option.splits)
  from filter_by_email_Some [OF u] f c i
  show "\<exists>u \<in> set (users st). uid u = i \<and> is_active u
           \<and> form_item req ''email'' = Inr (email u)
           \<and> (\<exists>pw. form_item req ''password'' = Inr pw
                 \<and> check_password_hash E (password_hash u) pw)"
    by blast
qed

theorem login_contract_witness:
  "login ex_env ex_store
       \<lparr>req_method = ''POST'', form = [(''email'', ''zed@x.org''), (''password'', ''pw'')]\<rparr>
     = reply ex_store [(Msg ''Invalid email or password.'', ''error'')] Render_login
   \<and> login ex_env ex_store
       \<lparr>req_method = ''POST'', form = [(''email'', ''alice@x.org''), (''password'', ''bad'')]\<rparr>
     = reply ex_store [(Msg ''Invalid email or password.'', ''error'')] Render_login
   \<and> login ex_env ex_store
       \<lparr>req_method = ''POST'',
        form = [(''email'', ''bob@x.org''), (''password'', ''pwbob@x.org'')]\<rparr>
     = reply ex_store [(Msg ''Your account is deactivated. Please contact admin.'', ''error'')]
         Render_login
   \<and> logged_in (login ex_env ex_store
       \<lparr>req_method = ''POST'',
        form = [(''email'', ''alice@x.org''), (''password'', ''pwalice@x.org'')]\<rparr>) = Some 1
   \<and> login ex_env (db (toggle_user ex_store ex_root 4))
       \<lparr>req_method = ''POST'',
        form = [(''email'', ''carol@x.org''), (''password'', ''pwcarol@x.org'')]\<rparr>
     = reply (db (toggle_user ex_store ex_root 4))
         [(Msg ''Your account is deactivated. Please contact admin.'', ''error'')] Render_login"
proof -
  let ?zed = "\<lparr>req_method = ''POST'', form = [(''email'', ''zed@x.org''), (''password'', ''pw'')]\<rparr>"
  let ?bad = "\<lparr>req_method = ''POST'',
    form = [(''email'', ''alice@x.org''), (''password'', ''bad'')]\<rparr>"
  let ?bob = "\<lparr>req_method = ''POST'',
    form = [(''email'', ''bob@x.org''), (''password'', ''pwbob@x.org'')]\<rparr>"
  let ?alice = "\<lparr>req_method = ''POST'',
    form = [(''email'', ''alice@x.org''), (''password'', ''pwalice@x.org'')]\<rparr>"
  let ?carol = "\<lparr>req_method = ''POST'',
    form = [(''email'', ''carol@x.org''), (''password'', ''pwcarol@x.org'')]\<rparr>"
  have z: "req_method ?zed = ''POST'' \<and> form_item ?zed ''email'' = Inr ''zed@x.org''
      \<and> form_item ?zed ''password'' = Inr ''pw''" "''zed@x.org'' \<notin> email ` set (users ex_store)"
    by (simp_all add: form_item_def ex_defs)
  have b: "req_method ?bad = ''POST'' \<and> form_item ?bad ''email'' = Inr ''alice@x.org''
      \<and> form_item ?bad ''password'' = Inr ''bad''"
    "filter_by_email ''alice@x.org'' (users ex_store) = Some ex_alice
      \<and> \<not> check_password_hash ex_env (password_hash ex_alice) ''bad''"
    by (simp_all add: form_item_def filter_by_email_def ex_env_def ex_defs)
  have o: "req_method ?bob = ''POST'' \<and> form_item ?bob ''email'' = Inr ''bob@x.org''
      \<and> form_item ?bob ''password'' = Inr ''pwbob@x.org''"
    "filter_by_email ''bob@x.org'' (users ex_store) = Some ex_bob
      \<and> check_password_hash ex_env (password_hash ex_bob) ''pwbob@x.org'' \<and> \<not> is_active ex_bob"
    by (simp_all add: form_item_def filter_by_email_def ex_env_def ex_defs)
  have a: "req_method ?alice = ''POST'' \<and> form_item ?alice ''email'' = Inr ''alice@x.org''
      \<and> form_item ?alice ''password'' = Inr ''pwalice@x.org''"
    "filter_by_email ''alice@x.org'' (users ex_store) = Some ex_alice
      \<and> check_password_hash ex_env (password_hash ex_alice) ''pwalice@x.org'' \<and> is_active ex_alice"
    "uid ex_alice = 1"
    by (simp_all add: form_item_def filter_by_email_def ex_env_def ex_defs)
  have c: "req_method ?carol = ''POST'' \<and> form_item ?carol ''email'' = Inr ''carol@x.org''
      \<and> form_item ?carol ''password'' = Inr ''pwcarol@x.org''"
    "filter_by_email ''carol@x.org'' (users ex_store) = Some ex_carol
      \<and> get_user ex_store (uid ex_carol) = Some ex_carol
      \<and> check_password_hash ex_env (password_hash ex_carol) ''pwcarol@x.org''
      \<and> is_active ex_carol \<and> role ex_root = ''admin''"
    "uid ex_carol = 4"
    by (simp_all add: form_item_def filter_by_email_def get_user_def ex_env_def ex_defs)
  have 1: "login ex_env ex_store ?zed
      = reply ex_store [(Msg ''Invalid email or password.'', ''error'')] Render_login"
    using z login_contract [where req = ?zed and em = "''zed@x.org''" and pw = "''pw''"
        and st = ex_store and E = ex_env]
    by blast
  have 2: "login ex_env ex_store ?bad
      = reply ex_store [(Msg ''Invalid email or password.'', ''error'')] Render_login"
    using b login_contract [where req = ?bad and em = "''alice@x.org''" and pw = "''bad''"
        and st = ex_store and E = ex_env]
    by blast
  have 3: "login ex_env ex_store ?bob
      = reply ex_store [(Msg ''Your account is deactivated. Please contact admin.'', ''error'')]
          Render_login"
    using o login_contract [where req = ?bob and em = "''bob@x.org''" and pw = "''pwbob@x.org''"
        and st = ex_store and E = ex_env]
    by blast
  have 4: "logged_in (login ex_env ex_store ?alice) = Some 1"
    using a login_contract [where req = ?alice and em = "''alice@x.org''"
        and pw = "''pwalice@x.org''" and st = ex_store and E = ex_env]
    by metis
  have 5: "login ex_env (db (toggle_user ex_store ex_root 4)) ?carol
      = reply (db (toggle_user ex_store ex_root 4))
          [(Msg ''Your account is deactivated. Please contact admin.'', ''error'')] Render_login"
    using c login_contract [where req = ?carol and em = "''carol@x.org''"
        and pw = "''pwcarol@x.org''" and st = ex_store and E = ex_env and ad = ex_root]
    by metis
  from 1 2 3 4 5 show ?thesis
    by (intro conjI)
qed

subsection \<open>The reading lists\<close>

lemma order_key_ge: "order_key b \<le> order_key a \<longleftrightarrow> newer_first a b"
proof -
  have "order_key b \<le> order_key a \<longleftrightarrow>
      date b < date a \<or> (date b \<le> date a \<and> created_at b \<le> created_at a)"
    unfolding order_key_def by (rule less_eq_prod_simp)
  also have "\<dots> \<longleftrightarrow> newer_first a b"
    unfolding newer_first_def by (metis order.order_iff_strict)
  finally show ?thesis .
qed

lemma sorted_order_by_desc: "sorted_wrt newer_first (order_by_desc order_key rs)"
proof -
  have "sorted (map order_key (sort_key order_key rs))"
    by (rule sorted_sort_key)
  then have "sorted_wrt (\<lambda>a b. order_key a \<le> order_key b) (sort_key order_key rs)"
    by (simp add: sorted_map)
  then have "sorted_wrt (\<lambda>a b. order_key b \<le> order_key a) (rev (sort_key order_key rs))"
    by (simp add: sorted_wrt_rev)
  then show ?thesis
    by (simp add: order_by_desc_def order_key_ge)
qed

lemma mset_order_by_desc: "mset (order_by_desc k rs) = mset rs"
  by (simp add: order_by_desc_def)

lemma sorted_wrt_take: "sorted_wrt P xs \<Longrightarrow> sorted_wrt P (take n xs)"
proof (induction xs arbitrary: n)
  case Nil
  then show ?case by simp
next
  case (Cons x xs)
  show ?case
  proof (cases n)
    case 0
    then show ?thesis by simp
  next
    case (Suc m)
    from Cons.prems have "\<forall>y \<in> set (take m xs). P x y"
      by (auto dest: in_set_takeD)
    with Cons Suc show ?thesis
      by simp
  qed
qed

lemma join_one_owner:
  "distinct (map uid us) \<Longrightarrow> k \<in> uid ` set us \<Longrightarrow>
   concat (map (\<lambda>u. if uid u = k then [r] else []) us) = [r]"
proof (induction us)
  case Nil
  then show ?case by simp
next
  case (Cons u us)
  show ?case
  proof (cases "uid u = k")
    case True
    with Cons.prems have "k \<notin> uid ` set us"
      by simp
    then have "\<forall>v \<in> set us. uid v \<noteq> k"
      by blast
    then have "concat (map (\<lambda>u. if uid u = k then [r] else []) us) = []"
      by (induction us) auto
    with True show ?thesis
      by simp
  next
    case False
    with Cons show ?thesis
      by auto
  qed
qed

lemma join_user_all:
  assumes "distinct (map uid (users st))"
    and "\<forall>r \<in> set (readings st). user_id r \<in> uid ` set (users st)"
  shows "join_user st = readings st"
proof -
  have "concat (map (\<lambda>r. concat (map (\<lambda>u. if uid u = user_id r then [r] else []) (users st))) rs)
      = rs" if "set rs \<subseteq> set (readings st)" for rs
    using that
  proof (induction rs)
    case Nil
    then show ?case by simp
  next
    case (Cons r rs)
    then have "user_id r \<in> uid ` set (users st)"
      using assms(2) by auto
    from join_one_owner [OF assms(1) this, of r] Cons show ?case
      by simp
  qed
  then show ?thesis
    by (simp add: join_user_def)
qed

lemma truediv_1100_11: "py_truediv 1100 11 = Inr 100"
  by code_simp

lemma round1_100: "py_round1 100 = Inr 100"
  by code_simp

lemma ex_many_dashboard:
  "response (dashboard ex_many ex_alice) =
     Render_dashboard
       (map (\<lambda>i. ex_reading i 1 (2025, 3, 1) ''Before Food'' 100 i)
          [11, 10, 9, 8, 7, 6, 5, 4, 3, 2])
       \<lparr>total_readings = 11, avg_sugar = 100, min_sugar = 100, max_sugar = 100,
        before_avg = 100, after_avg = 0\<rparr>"
proof -
  have f: "filter_by_user_id (uid ex_alice) (readings ex_many) = readings ex_many"
    by (simp add: filter_by_user_id_def ex_many_def ex_defs)
  have s: "dashboard_stats (readings ex_many) =
      Inr \<lparr>total_readings = 11, avg_sugar = 100, min_sugar = 100, max_sugar = 100,
        before_avg = 100, after_avg = 0\<rparr>"
    by (simp add: ex_many_def ex_defs dashboard_stats_def mean_if_any_def truediv_1100_11
        round1_100 py_round1_zero)
  have o: "take 10 (order_by_desc order_key (readings ex_many)) =
      map (\<lambda>i. ex_reading i 1 (2025, 3, 1) ''Before Food'' 100 i)
          [11, 10, 9, 8, 7, 6, 5, 4, 3, 2]"
    by (simp add: ex_many_def ex_defs order_by_desc_def order_key_def)
  have "role ex_alice \<noteq> ''admin''"
    by (simp add: ex_defs)
  then show ?thesis
    by (simp add: dashboard_def f s o reply_def)
qed

text \<open>
  C8, as stated, fails for the dashboard: for a user with eleven readings the dashboard
  renders ten of them, and the reading created first is not among them.
\<close>

theorem dashboard_lists_all_counterexample:
  "response (dashboard ex_many ex_alice) =
     Render_dashboard
       (map (\<lambda>i. ex_reading i 1 (2025, 3, 1) ''Before Food'' 100 i)
          [11, 10, 9, 8, 7, 6, 5, 4, 3, 2])
       \<lparr>total_readings = 11, avg_sugar = 100, min_sugar = 100, max_sugar = 100,
        before_avg = 100, after_avg = 0\<rparr>
   \<and> length (filter_by_user_id (uid ex_alice) (readings ex_many)) = 11
   \<and> ex_reading 1 1 (2025, 3, 1) ''Before Food'' 100 1
       \<in> set (filter_by_user_id (uid ex_alice) (readings ex_many))
   \<and> ex_reading 1 1 (2025, 3, 1) ''Before Food'' 100 1
       \<notin> set (map (\<lambda>i. ex_reading i 1 (2025, 3, 1) ''Before Food'' 100 i)
          [11, 10, 9, 8, 7, 6, 5, 4, 3, 2])"
proof (intro conjI)
  show "response (dashboard ex_many ex_alice) =
     Render_dashboard
       (map (\<lambda>i. ex_reading i 1 (2025, 3, 1) ''Before Food'' 100 i)
          [11, 10, 9, 8, 7, 6, 5, 4, 3, 2])
       \<lparr>total_readings = 11, avg_sugar = 100, min_sugar = 100, max_sugar = 100,
        before_avg = 100, after_avg = 0\<rparr>"
    by (rule ex_many_dashboard)
  show "length (filter_by_user_id (uid ex_alice) (readings ex_many)) = 11"
    by (simp add: filter_by_user_id_def ex_many_def ex_defs)
  show "ex_reading 1 1 (2025, 3, 1) ''Before Food'' 100 1
       \<in> set (filter_by_user_id (uid ex_alice) (readings ex_many))"
    by (simp add: filter_by_user_id_def ex_many_def ex_defs)
  show "ex_reading 1 1 (2025, 3, 1) ''Before Food'' 100 1
       \<notin> set (map (\<lambda>i. ex_reading i 1 (2025, 3, 1) ''Before Food'' 100 i)
          [11, 10, 9, 8, 7, 6, 5, 4, 3, 2])"
    by (simp add: ex_defs)
qed

text \<open>
  C8, amended. For a user who is not an admin, \<open>history\<close> renders all readings owned by
  the user, each once, sorted by date descending and, within equal dates, by creation
  time descending. The dashboard renders the first ten readings of that list (all of them
  when there are at most ten). For an admin, \<open>manage_readings\<close> renders the readings of
  the join with the users in the same order: every reading once when user ids are unique
  and every reading's user exists.
\<close>

theorem reading_lists:
  "(role cu \<noteq> ''admin'' \<longrightarrow>
      (\<exists>hist. response (history st cu) = Render_history hist
         \<and> mset hist = mset (filter_by_user_id (uid cu) (readings st))
         \<and> sorted_wrt newer_first hist
         \<and> (\<forall>rs s. response (dashboard st cu) = Render_dashboard rs s \<longrightarrow>
               rs = take 10 hist \<and> sorted_wrt newer_first rs
               \<and> length rs = min 10 (length (filter_by_user_id (uid cu) (readings st))))))
   \<and> (role cu = ''admin'' \<longrightarrow>
      (\<exists>rs. response (manage_readings st cu) = Render_manage_readings rs
         \<and> mset rs = mset (join_user st)
         \<and> sorted_wrt newer_first rs
         \<and> (distinct (map uid (users st))
              \<and> (\<forall>r \<in> set (readings st). user_id r \<in> uid ` set (users st)) \<longrightarrow>
            mset rs = mset (readings st))))"
proof (intro conjI impI)
  assume u: "role cu \<noteq> ''admin''"
  let ?own = "filter_by_user_id (uid cu) (readings st)"
  let ?hist = "order_by_desc order_key ?own"
  have 1: "response (history st cu) = Render_history ?hist"
    using u by (simp add: history_def reply_def)
  have 2: "mset ?hist = mset ?own"
    by (rule mset_order_by_desc)
  have 3: "sorted_wrt newer_first ?hist"
    by (rule sorted_order_by_desc)
  have 4: "rs = take 10 ?hist \<and> sorted_wrt newer_first rs \<and> length rs = min 10 (length ?own)"
    if "response (dashboard st cu) = Render_dashboard rs s" for rs s
  proof -
    from that u have r: "rs = take 10 ?hist"
      by (auto simp: dashboard_def reply_def uncaught_def split: sum.splits if_splits)
    have "length ?hist = length ?own"
      using 2 by (metis size_mset)
    with r 3 show ?thesis
      by (simp add: sorted_wrt_take min.commute)
  qed
  from 1 2 3 4 show "\<exists>hist. response (history st cu) = Render_history hist
         \<and> mset hist = mset (filter_by_user_id (uid cu) (readings st))
         \<and> sorted_wrt newer_first hist
         \<and> (\<forall>rs s. response (dashboard st cu) = Render_dashboard rs s \<longrightarrow>
               rs = take 10 hist \<and> sorted_wrt newer_first rs
               \<and> length rs = min 10 (length (filter_by_user_id (uid cu) (readings st))))"
    by blast
next
  assume a: "role cu = ''admin''"
  let ?rs = "order_by_desc order_key (join_user st)"
  have 1: "response (manage_readings st cu) = Render_manage_readings ?rs"
    using a by (simp add: manage_readings_def reply_def)
  have 2: "mset ?rs = mset (join_user st)"
    by (rule mset_order_by_desc)
  have 3: "sorted_wrt newer_first ?rs"
    by (rule sorted_order_by_desc)
  have 4: "distinct (map uid (users st))
      \<and> (\<forall>r \<in> set (readings st). user_id r \<in> uid ` set (users st)) \<longrightarrow>
      mset ?rs = mset (readings st)"
    using 2 join_user_all [of st] by auto
  from 1 2 3 4 show "\<exists>rs. response (manage_readings st cu) = Render_manage_readings rs
         \<and> mset rs = mset (join_user st)
         \<and> sorted_wrt newer_first rs
         \<and> (distinct (map uid (users st))
              \<and> (\<forall>r \<in> set (readings st). user_id r \<in> uid ` set (users st)) \<longrightarrow>
            mset rs = mset (readings st))"
    by blast
qed

theorem reading_lists_witness:
  "response (history ex_store ex_alice) =
     Render_history
       [ex_reading 3 1 (2025, 3, 2) ''After Food'' 200 30,
        ex_reading 2 1 (2025, 3, 2) ''Before Food'' 120 20,
        ex_reading 1 1 (2025, 3, 1) ''Before Food'' 100 10]
   \<and> sorted_wrt newer_first
       [ex_reading 3 1 (2025, 3, 2) ''After Food'' 200 30,
        ex_reading 2 1 (2025, 3, 2) ''Before Food'' 120 20,
        ex_reading 1 1 (2025, 3, 1) ''Before Food'' 100 10]
   \<and> response (manage_readings ex_store ex_root) =
     Render_manage_readings
       [ex_reading 3 1 (2025, 3, 2) ''After Food'' 200 30,
        ex_reading 2 1 (2025, 3, 2) ''Before Food'' 120 20,
        ex_reading 4 2 (2025, 3, 1) ''Fasting'' 90 40,
        ex_reading 1 1 (2025, 3, 1) ''Before Food'' 100 10]
   \<and> mset [ex_reading 3 1 (2025, 3, 2) ''After Food'' 200 30,
        ex_reading 2 1 (2025, 3, 2) ''Before Food'' 120 20,
        ex_reading 4 2 (2025, 3, 1) ''Fasting'' 90 40,
        ex_reading 1 1 (2025, 3, 1) ''Before Food'' 100 10] = mset (readings ex_store)"
proof -
  let ?hist = "[ex_reading 3 1 (2025, 3, 2) ''After Food'' 200 30,
        ex_reading 2 1 (2025, 3, 2) ''Before Food'' 120 20,
        ex_reading 1 1 (2025, 3, 1) ''Before Food'' 100 10]"
  let ?all = "[ex_reading 3 1 (2025, 3, 2) ''After Food'' 200 30,
        ex_reading 2 1 (2025, 3, 2) ''Before Food'' 120 20,
        ex_reading 4 2 (2025, 3, 1) ''Fasting'' 90 40,
        ex_reading 1 1 (2025, 3, 1) ''Before Food'' 100 10]"
  have r: "role ex_alice \<noteq> ''admin''" "role ex_root = ''admin''"
    by (simp_all add: ex_defs)
  have h: "response (history ex_store ex_alice) = Render_history ?hist"
    by (simp add: history_def reply_def r)
      (simp add: ex_defs filter_by_user_id_def order_by_desc_def order_key_def)
  have m: "response (manage_readings ex_store ex_root) = Render_manage_readings ?all"
    by (simp add: manage_readings_def reply_def r)
      (simp add: ex_defs join_user_def order_by_desc_def order_key_def)
  have k: "distinct (map uid (users ex_store))
      \<and> (\<forall>r \<in> set (readings ex_store). user_id r \<in> uid ` set (users ex_store))"
    by (simp add: ex_defs)
  from reading_lists [of ex_alice ex_store] r(1) h have s: "sorted_wrt newer_first ?hist"
    by auto
  from reading_lists [of ex_root ex_store] r(2) m k have a: "mset ?all = mset (readings ex_store)"
    by auto
  from h s m a show ?thesis
    by (intro conjI)
qed

subsection \<open>Adding a reading\<close>

lemma date_of_form_Inr: "date_of_form E s = Inr d \<longleftrightarrow> strptime_date E s = Some d"
  by (simp add: date_of_form_def split: option.splits)

lemma int_of_form_Inr: "int_of_form E s = Inr v \<longleftrightarrow> py_int E s = Some v"
  by (simp add: int_of_form_def split: option.splits)

lemma new_reading_Inr:
  "new_reading E st cu req = Inr r \<longleftrightarrow>
   (\<exists>ds d t m ss v f.
      form_item req ''date'' = Inr ds \<and> strptime_date E ds = Some d
      \<and> form_item req ''time_of_day'' = Inr t \<and> form_item req ''meal_relation'' = Inr m
      \<and> form_item req ''sugar_value'' = Inr ss \<and> py_int E ss = Some v
      \<and> form_item req ''food_eaten'' = Inr f
      \<and> r = \<lparr>rid = next_id (map rid (readings st)), user_id = uid cu, date = d,
             time_of_day = t, meal_relation = m, sugar_value = v, food_eaten = Some f,
             created_at = utcnow E\<rparr>)"
  unfolding new_reading_def bindE_eq_Inr date_of_form_Inr int_of_form_Inr sum.inject
  by blast

lemma add_reading_redirects:
  "response (add_reading E st cu req) = Redirect ''dashboard'' \<longleftrightarrow>
   (\<exists>r. new_reading E st cu req = Inr r \<and> sqlite_int (sugar_value r))"
  by (auto simp: add_reading_def reply_def uncaught_def split: sum.splits if_splits)

text \<open>
  C7. A reading is added when the form of an \<open>add_reading\<close> request holds a date that
  parses to \<open>d\<close>, a \<open>time_of_day\<close>, a \<open>meal_relation\<close>, a \<open>sugar_value\<close> that parses to an
  integer \<open>v\<close> within the signed 64-bit range and a \<open>food_eaten\<close>, and only then (with \<open>v\<close>
  beyond the range the request ends in \<open>OverflowError\<close> and stores nothing). A reading
  that is added is one new row with exactly these five values, owned by the adding user,
  with a new id and the clock's time of creation; the list of that user's readings read
  afterwards (the query of \<open>history\<close>) is the list before plus this reading, and
  \<open>history\<close> renders it for a user who is not an admin.
\<close>

theorem add_reading_round_trip:
  "(form_item req ''date'' = Inr ds \<and> strptime_date E ds = Some d
      \<and> form_item req ''time_of_day'' = Inr t \<and> form_item req ''meal_relation'' = Inr m
      \<and> form_item req ''sugar_value'' = Inr ss \<and> py_int E ss = Some v
      \<and> form_item req ''food_eaten'' = Inr f \<and> sqlite_int v \<longrightarrow>
      (\<exists>r. db (add_reading E st cu req) = st\<lparr>readings := readings st @ [r]\<rparr>
         \<and> response (add_reading E st cu req) = Redirect ''dashboard''
         \<and> date r = d \<and> time_of_day r = t \<and> meal_relation r = m \<and> sugar_value r = v
         \<and> food_eaten r = Some f \<and> user_id r = uid cu
         \<and> rid r \<notin> rid ` set (readings st) \<and> created_at r = utcnow E
         \<and> mset (order_by_desc order_key
               (filter_by_user_id (uid cu) (readings (db (add_reading E st cu req)))))
             = mset (order_by_desc order_key (filter_by_user_id (uid cu) (readings st))) + {#r#}
         \<and> (role cu \<noteq> ''admin'' \<longrightarrow>
              (\<exists>hist. response (history (db (add_reading E st cu req)) cu) = Render_history hist
                 \<and> r \<in> set hist))))
   \<and> (form_item req ''date'' = Inr ds \<and> strptime_date E ds = Some d
      \<and> form_item req ''time_of_day'' = Inr t \<and> form_item req ''meal_relation'' = Inr m
      \<and> form_item req ''sugar_value'' = Inr ss \<and> py_int E ss = Some v
      \<and> form_item req ''food_eaten'' = Inr f \<and> \<not> sqlite_int v \<longrightarrow>
      add_reading E st cu req = reply st [] (Raise OverflowError))
   \<and> (response (add_reading E st cu req) = Redirect ''dashboard'' \<longrightarrow>
        (\<exists>ds d t m ss v f.
           form_item req ''date'' = Inr ds \<and> strptime_date E ds = Some d
           \<and> form_item req ''time_of_day'' = Inr t \<and> form_item req ''meal_relation'' = Inr m
           \<and> form_item req ''sugar_value'' = Inr ss \<and> py_int E ss = Some v
           \<and> form_item req ''food_eaten'' = Inr f \<and> sqlite_int v))"
proof (intro conjI impI)
  assume h: "form_item req ''date'' = Inr ds \<and> strptime_date E ds = Some d
      \<and> form_item req ''time_of_day'' = Inr t \<and> form_item req ''meal_relation'' = Inr m
      \<and> form_item req ''sugar_value'' = Inr ss \<and> py_int E ss = Some v
      \<and> form_item req ''food_eaten'' = Inr f \<and> sqlite_int v"
  let ?r = "\<lparr>rid = next_id (map rid (readings st)), user_id = uid cu, date = d,
             time_of_day = t, meal_relation = m, sugar_value = v, food_eaten = Some f,
             created_at = utcnow E\<rparr>"
  let ?st = "db (add_reading E st cu req)"
  from h have n: "new_reading E st cu req = Inr ?r"
    unfolding new_reading_Inr by blast
  from h have w: "sqlite_int (sugar_value ?r)"
    by simp
  from n w have d: "?st = st\<lparr>readings := readings st @ [?r]\<rparr>"
    and p: "response (add_reading E st cu req) = Redirect ''dashboard''"
    by (simp_all add: add_reading_def reply_def)
  have i: "rid ?r \<notin> rid ` set (readings st)"
    using next_id_fresh [of "map rid (readings st)"] by simp
  have q: "mset (order_by_desc order_key (filter_by_user_id (uid cu) (readings ?st)))
      = mset (order_by_desc order_key (filter_by_user_id (uid cu) (readings st))) + {#?r#}"
    by (simp add: d mset_order_by_desc filter_by_user_id_def)
  have l: "\<exists>hist. response (history ?st cu) = Render_history hist \<and> ?r \<in> set hist"
    if "role cu \<noteq> ''admin''"
  proof -
    have "?r \<in># mset (order_by_desc order_key (filter_by_user_id (uid cu) (readings ?st)))"
      by (simp only: q) simp
    then have "?r \<in> set (order_by_desc order_key (filter_by_user_id (uid cu) (readings ?st)))"
      by simp
    with that show ?thesis
      by (simp add: history_def reply_def)
  qed
  from d p i q l show "\<exists>r. db (add_reading E st cu req) = st\<lparr>readings := readings st @ [r]\<rparr>
         \<and> response (add_reading E st cu req) = Redirect ''dashboard''
         \<and> date r = d \<and> time_of_day r = t \<and> meal_relation r = m \<and> sugar_value r = v
         \<and> food_eaten r = Some f \<and> user_id r = uid cu
         \<and> rid r \<notin> rid ` set (readings st) \<and> created_at r = utcnow E
         \<and> mset (order_by_desc order_key
               (filter_by_user_id (uid cu) (readings (db (add_reading E st cu req)))))
             = mset (order_by_desc order_key (filter_by_user_id (uid cu) (readings st))) + {#r#}
         \<and> (role cu \<noteq> ''admin'' \<longrightarrow>
              (\<exists>hist. response (history (db (add_reading E st cu req)) cu) = Render_history hist
                 \<and> r \<in> set hist))"
    by (intro exI [of _ ?r]) simp
next
  assume h: "form_item req ''date'' = Inr ds \<and> strptime_date E ds = Some d
      \<and> form_item req ''time_of_day'' = Inr t \<and> form_item req ''meal_relation'' = Inr m
      \<and> form_item req ''sugar_value'' = Inr ss \<and> py_int E ss = Some v
      \<and> form_item req ''food_eaten'' = Inr f \<and> \<not> sqlite_int v"
  let ?r = "\<lparr>rid = next_id (map rid (readings st)), user_id = uid cu, date = d,
             time_of_day = t, meal_relation = m, sugar_value = v, food_eaten = Some f,
             created_at = utcnow E\<rparr>"
  from h have n: "new_reading E st cu req = Inr ?r"
    unfolding new_reading_Inr by blast
  from h have "\<not> sqlite_int (sugar_value ?r)"
    by simp
  with n show "add_reading E st cu req = reply st [] (Raise OverflowError)"
    by (simp add: add_reading_def uncaught_overflow)
next
  assume "response (add_reading E st cu req) = Redirect ''dashboard''"
  then obtain r where "new_reading E st cu req = Inr r" and "sqlite_int (sugar_value r)"
    by (auto simp: add_reading_redirects)
  then show "\<exists>ds d t m ss v f.
           form_item req ''date'' = Inr ds \<and> strptime_date E ds = Some d
           \<and> form_item req ''time_of_day'' = Inr t \<and> form_item req ''meal_relation'' = Inr m
           \<and> form_item req ''sugar_value'' = Inr ss \<and> py_int E ss = Some v
           \<and> form_item req ''food_eaten'' = Inr f \<and> sqlite_int v"
    unfolding new_reading_Inr by force
qed

theorem add_reading_round_trip_witness:
  "response (history
       (db (add_reading ex_env ex_store ex_alice
          \<lparr>req_method = ''POST'',
           form = [(''date'', ''2025-03-02''), (''time_of_day'', ''Evening''),
                   (''meal_relation'', ''After Food''), (''sugar_value'', ''140''),
                   (''food_eaten'', ''dosa'')]\<rparr>)) ex_alice) =
     Render_history
       [\<lparr>rid = 5, user_id = 1, date = (2025, 3, 2), time_of_day = ''Evening'',
         meal_relation = ''After Food'', sugar_value = 140, food_eaten = Some ''dosa'',
         created_at = 500\<rparr>,
        ex_reading 3 1 (2025, 3, 2) ''After Food'' 200 30,
        ex_reading 2 1 (2025, 3, 2) ''Before Food'' 120 20,
        ex_reading 1 1 (2025, 3, 1) ''Before Food'' 100 10]
   \<and> response (add_reading ex_env ex_store ex_alice
          \<lparr>req_method = ''POST'',
           form = [(''date'', ''2025-03-02''), (''time_of_day'', ''Evening''),
                   (''meal_relation'', ''After Food''), (''sugar_value'', ''140''),
                   (''food_eaten'', ''dosa'')]\<rparr>) = Redirect ''dashboard''
   \<and> add_reading ex_env ex_store ex_alice
          \<lparr>req_method = ''POST'',
           form = [(''date'', ''2025-03-02''), (''time_of_day'', ''Evening''),
                   (''meal_relation'', ''After Food''),
                   (''sugar_value'', ''9223372036854775808''), (''food_eaten'', ''dosa'')]\<rparr>
       = reply ex_store [] (Raise OverflowError)"
proof -
  let ?req = "\<lparr>req_method = ''POST'',
           form = [(''date'', ''2025-03-02''), (''time_of_day'', ''Evening''),
                   (''meal_relation'', ''After Food''), (''sugar_value'', ''140''),
                   (''food_eaten'', ''dosa'')]\<rparr>"
  let ?big = "\<lparr>req_method = ''POST'',
           form = [(''date'', ''2025-03-02''), (''time_of_day'', ''Evening''),
                   (''meal_relation'', ''After Food''),
                   (''sugar_value'', ''9223372036854775808''), (''food_eaten'', ''dosa'')]\<rparr>"
  have h: "form_item ?req ''date'' = Inr ''2025-03-02''
      \<and> strptime_date ex_env ''2025-03-02'' = Some (2025, 3, 2)
      \<and> form_item ?req ''time_of_day'' = Inr ''Evening''
      \<and> form_item ?req ''meal_relation'' = Inr ''After Food''
      \<and> form_item ?req ''sugar_value'' = Inr ''140'' \<and> py_int ex_env ''140'' = Some 140
      \<and> form_item ?req ''food_eaten'' = Inr ''dosa'' \<and> sqlite_int 140"
    by (simp add: form_item_def ex_env_def sqlite_int_def)
  have g: "form_item ?big ''date'' = Inr ''2025-03-02''
      \<and> strptime_date ex_env ''2025-03-02'' = Some (2025, 3, 2)
      \<and> form_item ?big ''time_of_day'' = Inr ''Evening''
      \<and> form_item ?big ''meal_relation'' = Inr ''After Food''
      \<and> form_item ?big ''sugar_value'' = Inr ''9223372036854775808''
      \<and> py_int ex_env ''9223372036854775808'' = Some 9223372036854775808
      \<and> form_item ?big ''food_eaten'' = Inr ''dosa'' \<and> \<not> sqlite_int 9223372036854775808"
    by (simp add: form_item_def ex_env_def sqlite_int_def)
  have l: "response (history (db (add_reading ex_env ex_store ex_alice ?req)) ex_alice) =
     Render_history
       [\<lparr>rid = 5, user_id = 1, date = (2025, 3, 2), time_of_day = ''Evening'',
         meal_relation = ''After Food'', sugar_value = 140, food_eaten = Some ''dosa'',
         created_at = 500\<rparr>,
        ex_reading 3 1 (2025, 3, 2) ''After Food'' 200 30,
        ex_reading 2 1 (2025, 3, 2) ''Before Food'' 120 20,
        ex_reading 1 1 (2025, 3, 1) ''Before Food'' 100 10]"
    by (simp add: add_reading_def new_reading_def form_item_def date_of_form_def int_of_form_def
        reply_def history_def next_id_def sqlite_int_def ex_env_def)
      (simp add: ex_defs filter_by_user_id_def order_by_desc_def order_key_def)
  from add_reading_round_trip [of ?req "''2025-03-02''" ex_env "(2025, 3, 2)" "''Evening''"
      "''After Food''" "''140''" 140 "''dosa''" ex_store ex_alice] h
  have p: "response (add_reading ex_env ex_store ex_alice ?req) = Redirect ''dashboard''"
    by blast
  from add_reading_round_trip [of ?big "''2025-03-02''" ex_env "(2025, 3, 2)" "''Evening''"
      "''After Food''" "''9223372036854775808''" 9223372036854775808 "''dosa''" ex_store ex_alice] g
  have o: "add_reading ex_env ex_store ex_alice ?big = reply ex_store [] (Raise OverflowError)"
    by blast
  from l p o show ?thesis
    by (intro conjI)
qed

subsection \<open>Updating the profile\<close>

text \<open>
  C9. When \<open>update_profile\<close> is given a new password (not blank after stripping) whose
  confirmation differs, the request flashes one message of category \<open>error\<close>, redirects
  to the profile and commits nothing: the database afterwards is the database before, so
  the row stored for the user, with its name, its four ranges and its password hash, is
  the same. The message is \<open>Passwords do not match!\<close> when the name and the four ranges
  were read without an exception.
\<close>

theorem update_profile_mismatch:
  "py_strip E (form_get req ''new_password'' []) \<noteq> []
   \<and> py_strip E (form_get req ''new_password'' [])
       \<noteq> py_strip E (form_get req ''confirm_password'' []) \<longrightarrow>
   db (update_profile E st cu req) = st
   \<and> get_user (db (update_profile E st cu req)) (uid cu) = get_user st (uid cu)
   \<and> (\<exists>m. flashes (update_profile E st cu req) = [(m, ''error'')])
   \<and> response (update_profile E st cu req) = Redirect ''profile''
   \<and> (\<forall>u. profile_edits E cu req = Inr u \<longrightarrow>
         flashes (update_profile E st cu req) = [(Msg ''Passwords do not match!'', ''error'')])"
proof (intro impI)
  assume h: "py_strip E (form_get req ''new_password'' []) \<noteq> []
   \<and> py_strip E (form_get req ''new_password'' [])
       \<noteq> py_strip E (form_get req ''confirm_password'' [])"
  show "db (update_profile E st cu req) = st
   \<and> get_user (db (update_profile E st cu req)) (uid cu) = get_user st (uid cu)
   \<and> (\<exists>m. flashes (update_profile E st cu req) = [(m, ''error'')])
   \<and> response (update_profile E st cu req) = Redirect ''profile''
   \<and> (\<forall>u. profile_edits E cu req = Inr u \<longrightarrow>
         flashes (update_profile E st cu req) = [(Msg ''Passwords do not match!'', ''error'')])"
  proof (cases "profile_edits E cu req")
    case (Inl e)
    then show ?thesis
      by (simp add: update_profile_def reply_def)
  next
    case (Inr u)
    with h show ?thesis
      by (simp add: update_profile_def reply_def Let_def)
  qed
qed

theorem update_profile_mismatch_witness:
  "update_profile ex_env ex_store ex_alice
       \<lparr>req_method = ''POST'',
        form = [(''name'', ''Alice''), (''before_food_min'', ''70''),
                (''before_food_max'', ''140''), (''after_food_min'', ''95''),
                (''after_food_max'', ''180''), (''new_password'', ''tiger ''),
                (''confirm_password'', ''tigre'')]\<rparr>
     = reply ex_store [(Msg ''Passwords do not match!'', ''error'')] (Redirect ''profile'')
   \<and> profile_edits ex_env ex_alice
       \<lparr>req_method = ''POST'',
        form = [(''name'', ''Alice''), (''before_food_min'', ''70''),
                (''before_food_max'', ''140''), (''after_food_min'', ''95''),
                (''after_food_max'', ''180''), (''new_password'', ''tiger ''),
                (''confirm_password'', ''tigre'')]\<rparr>
     = Inr (ex_alice\<lparr>name := Some ''Alice'', before_food_min := 70, before_food_max := 140,
            after_food_min := 95, after_food_max := 180\<rparr>)
   \<and> get_user (db (update_profile ex_env ex_store ex_alice
       \<lparr>req_method = ''POST'',
        form = [(''name'', ''Alice''), (''before_food_min'', ''70''),
                (''before_food_max'', ''140''), (''after_food_min'', ''95''),
                (''after_food_max'', ''180''), (''new_password'', ''tiger ''),
                (''confirm_password'', ''tigre'')]\<rparr>)) 1 = Some ex_alice
   \<and> get_user (db (update_profile ex_env ex_store ex_alice
       \<lparr>req_method = ''POST'',
        form = [(''name'', ''Alice''), (''before_food_min'', ''70''),
                (''before_food_max'', ''140''), (''after_food_min'', ''95''),
                (''after_food_max'', ''180''), (''new_password'', ''tiger ''),
                (''confirm_password'', ''tiger'')]\<rparr>)) 1
     = Some (ex_alice\<lparr>name := Some ''Alice'', password_hash := ''scrypt$tiger'',
              before_food_min := 70, before_food_max := 140,
              after_food_min := 95, after_food_max := 180\<rparr>)"
proof -
  let ?req = "\<lparr>req_method = ''POST'',
        form = [(''name'', ''Alice''), (''before_food_min'', ''70''),
                (''before_food_max'', ''140''), (''after_food_min'', ''95''),
                (''after_food_max'', ''180''), (''new_password'', ''tiger ''),
                (''confirm_password'', ''tigre'')]\<rparr>"
  let ?ok = "\<lparr>req_method = ''POST'',
        form = [(''name'', ''Alice''), (''before_food_min'', ''70''),
                (''before_food_max'', ''140''), (''after_food_min'', ''95''),
                (''after_food_max'', ''180''), (''new_password'', ''tiger ''),
                (''confirm_password'', ''tiger'')]\<rparr>"
  have h: "py_strip ex_env (form_get ?req ''new_password'' []) \<noteq> []
   \<and> py_strip ex_env (form_get ?req ''new_password'' [])
       \<noteq> py_strip ex_env (form_get ?req ''confirm_password'' [])"
    by (simp add: form_get_def ex_env_def)
  have e: "profile_edits ex_env ex_alice ?req
     = Inr (ex_alice\<lparr>name := Some ''Alice'', before_food_min := 70, before_food_max := 140,
            after_food_min := 95, after_food_max := 180\<rparr>)"
    by (simp add: profile_edits_def form_item_def int_of_form_def ex_env_def)
  have g: "get_user ex_store 1 = Some ex_alice"
    by (simp add: get_user_def ex_defs)
  have u: "uid ex_alice = 1"
    by (simp add: ex_defs)
  from update_profile_mismatch [of ex_env ?req ex_store ex_alice] h e
  have d: "db (update_profile ex_env ex_store ex_alice ?req) = ex_store"
    and f: "flashes (update_profile ex_env ex_store ex_alice ?req)
      = [(Msg ''Passwords do not match!'', ''error'')]"
    and p: "response (update_profile ex_env ex_store ex_alice ?req) = Redirect ''profile''"
    by blast+
  have l: "logged_in (update_profile ex_env ex_store ex_alice ?req) = None"
    by (simp add: update_profile_def commit_profile_def reply_def Let_def split: sum.splits)
  from d f p l have 1: "update_profile ex_env ex_store ex_alice ?req
     = reply ex_store [(Msg ''Passwords do not match!'', ''error'')] (Redirect ''profile'')"
    by (simp add: reply_def)
  from d g have 3: "get_user (db (update_profile ex_env ex_store ex_alice ?req)) 1 = Some ex_alice"
    by simp
  have 4: "get_user (db (update_profile ex_env ex_store ex_alice ?ok)) 1
     = Some (ex_alice\<lparr>name := Some ''Alice'', password_hash := ''scrypt$tiger'',
              before_food_min := 70, before_food_max := 140,
              after_food_min := 95, after_food_max := 180\<rparr>)"
    by (simp add: update_profile_def commit_profile_def sqlite_int_def profile_edits_def
        form_item_def form_get_def int_of_form_def reply_def commit_user_def get_user_def
        ex_env_def)
      (simp add: ex_defs)
  from 1 e 3 4 show ?thesis
    by (intro conjI)
qed

subsection \<open>Toggling a user twice\<close>

lemma find_map_replace:
  "find (\<lambda>v. uid v = i) us = Some u \<Longrightarrow> uid u' = i \<Longrightarrow>
   find (\<lambda>v. uid v = i) (map (\<lambda>v. if uid v = i then u' else v) us) = Some u'"
  by (induction us) (auto split: if_splits)

lemma map_replace_same:
  assumes "distinct (map uid us)" and "u \<in> set us"
  shows "map (\<lambda>v. if uid v = uid u then u else v) us = us"
proof -
  from assms(1) have "inj_on uid (set us)"
    by (simp add: distinct_map)
  with assms(2) have "v = u" if "v \<in> set us" "uid v = uid u" for v
    using that by (auto dest: inj_onD)
  then show ?thesis
    by (intro map_idI) auto
qed

text \<open>
  For an admin, an existing user id and unique user ids, \<open>toggle_user\<close> flips the stored
  active flag of that user, and a second \<open>toggle_user\<close> gives back the database the first
  one started from.
\<close>

theorem toggle_user_twice:
  "role ad = ''admin'' \<and> distinct (map uid (users st)) \<and> get_user st i = Some u \<longrightarrow>
   get_user (db (toggle_user st ad i)) i = Some (u\<lparr>is_active := \<not> is_active u\<rparr>)
   \<and> db (toggle_user (db (toggle_user st ad i)) ad i) = st"
proof (intro impI)
  assume h: "role ad = ''admin'' \<and> distinct (map uid (users st)) \<and> get_user st i = Some u"
  let ?u = "u\<lparr>is_active := \<not> is_active u\<rparr>"
  let ?st = "db (toggle_user st ad i)"
  from h have k: "uid u = i" "u \<in> set (users st)"
    using find_Some_key [of uid i "users st" u] by (simp_all add: get_user_def)
  from h k have t: "?st = st\<lparr>users := map (\<lambda>v. if uid v = i then ?u else v) (users st)\<rparr>"
    by (simp add: toggle_user_def reply_def commit_user_def)
  from h k have g: "get_user ?st i = Some ?u"
    unfolding t get_user_def using find_map_replace [of i "users st" u ?u]
    by (simp add: get_user_def)
  have "map (\<lambda>v. if uid v = i then u else v) (map (\<lambda>v. if uid v = i then ?u else v) (users st))
      = map (\<lambda>v. if uid v = uid u then u else v) (users st)"
    using k by simp
  also have "\<dots> = users st"
    using h k(2) by (simp add: map_replace_same)
  finally have m: "map (\<lambda>v. if uid v = i then u else v)
      (map (\<lambda>v. if uid v = i then ?u else v) (users st)) = users st" .
  have b: "?u\<lparr>is_active := \<not> is_active ?u\<rparr> = u"
    by simp
  from h g have "db (toggle_user ?st ad i) = commit_user ?st (?u\<lparr>is_active := \<not> is_active ?u\<rparr>)"
    by (simp add: toggle_user_def reply_def)
  also have "\<dots> = commit_user ?st u"
    by (simp only: b)
  also have "\<dots> = st"
    unfolding t commit_user_def using m k by simp
  finally show "get_user ?st i = Some ?u \<and> db (toggle_user ?st ad i) = st"
    using g by simp
qed

theorem toggle_user_twice_witness:
  "get_user (db (toggle_user ex_store ex_root 2)) 2 = Some (ex_bob\<lparr>is_active := True\<rparr>)
   \<and> db (toggle_user (db (toggle_user ex_store ex_root 2)) ex_root 2) = ex_store"
proof -
  have h: "role ex_root = ''admin'' \<and> distinct (map uid (users ex_store))
      \<and> get_user ex_store 2 = Some ex_bob"
    by (simp add: get_user_def ex_defs)
  have "\<not> is_active ex_bob"
    by (simp add: ex_defs)
  with toggle_user_twice [of ex_root ex_store 2 ex_bob] h show ?thesis
    by simp
qed

end
